theory Spec2Isabelle
  imports Complex_Main "HOL-Library.Monad_Syntax" "HOL-Library.Sublist"
begin

section \<open>JavaScript values and the primitives the adapter uses\<close>

text \<open>
  The adapter (class \<open>MT5ApiService\<close> of the enhanced implementation) inspects decoded HTTP
  bodies of type \<open>any\<close>.  A decoded body is a JSON value or \<open>undefined\<close>; \<open>JFunction\<close> stands
  for a value whose \<open>typeof\<close> is none of object, string, number, boolean, undefined (a native
  function), so that the last branch of the response parser can be reached.

  Numbers are IEEE doubles in the source and real numbers here: rounding, overflow to
  Infinity and the sign of zero are not modelled.  Strings are lists of 8-bit characters,
  read as code units below 256.  An object is the list of its own properties; a decoded
  object has each key once, and \<open>map_of\<close> reads the list.
\<close>

datatype json =
    JUndefined
  | JNull
  | JBool bool
  | JNum real
  | JStr string
  | JArr "json list"
  | JObj "(string \<times> json) list"
  | JFunction

text \<open>The result of a numeric coercion: a number, an infinity, or NaN.\<close>

datatype jsnum = Fin real | PosInf | NegInf | NaN

fun typeof :: "json \<Rightarrow> string" where
  "typeof JUndefined = ''undefined''"
| "typeof JNull = ''object''"
| "typeof (JBool b) = ''boolean''"
| "typeof (JNum x) = ''number''"
| "typeof (JStr s) = ''string''"
| "typeof (JArr xs) = ''object''"
| "typeof (JObj kvs) = ''object''"
| "typeof JFunction = ''function''"

text \<open>Truthiness, as \<open>if (v)\<close>, \<open>!v\<close>, \<open>a && b\<close> and \<open>a || b\<close> read it.\<close>

fun truthy :: "json \<Rightarrow> bool" where
  "truthy JUndefined = False"
| "truthy JNull = False"
| "truthy (JBool b) = b"
| "truthy (JNum x) = (x \<noteq> 0)"
| "truthy (JStr s) = (s \<noteq> [])"
| "truthy (JArr xs) = True"
| "truthy (JObj kvs) = True"
| "truthy JFunction = True"

definition js_or :: "json \<Rightarrow> json \<Rightarrow> json" where
  "js_or a b = (if truthy a then a else b)"

subsection \<open>Strings\<close>

fun starts_with :: "string \<Rightarrow> string \<Rightarrow> bool" where
  "starts_with s [] = True"
| "starts_with [] (p # ps) = False"
| "starts_with (c # cs) (p # ps) = (c = p \<and> starts_with cs ps)"

text \<open>\<open>s.includes(p)\<close> on strings: \<open>p\<close> occurs in \<open>s\<close> as a contiguous substring.\<close>

fun str_includes :: "string \<Rightarrow> string \<Rightarrow> bool" where
  "str_includes [] p = (p = [])"
| "str_includes (c # cs) p = (starts_with (c # cs) p \<or> str_includes cs p)"

definition ends_with :: "string \<Rightarrow> string \<Rightarrow> bool" where
  "ends_with s p = starts_with (rev s) (rev p)"

definition lower_char :: "char \<Rightarrow> char" where
  "lower_char c =
     (let n = (of_char c :: nat)
      in if (65 \<le> n \<and> n \<le> 90) \<or> (192 \<le> n \<and> n \<le> 222 \<and> n \<noteq> 215)
         then char_of (n + 32) else c)"

definition toLowerCase :: "string \<Rightarrow> string" where
  "toLowerCase s = map lower_char s"

text \<open>White space and line terminators among the code units below 256.\<close>

definition is_ws :: "char \<Rightarrow> bool" where
  "is_ws c = ((of_char c :: nat) \<in> {9, 10, 11, 12, 13, 32, 160})"

definition trim :: "string \<Rightarrow> string" where
  "trim s = rev (dropWhile is_ws (rev (dropWhile is_ws s)))"

definition is_digit :: "char \<Rightarrow> bool" where
  "is_digit c = (48 \<le> (of_char c :: nat) \<and> (of_char c :: nat) \<le> 57)"

text \<open>The value of a character as a digit in radix up to 36, if it is one.\<close>

definition digit_val :: "char \<Rightarrow> nat option" where
  "digit_val c =
     (let n = (of_char c :: nat)
      in if 48 \<le> n \<and> n \<le> 57 then Some (n - 48)
         else if 97 \<le> n \<and> n \<le> 122 then Some (n - 87)
         else if 65 \<le> n \<and> n \<le> 90 then Some (n - 55)
         else None)"

definition is_radix_digit :: "nat \<Rightarrow> char \<Rightarrow> bool" where
  "is_radix_digit r c = (case digit_val c of None \<Rightarrow> False | Some d \<Rightarrow> d < r)"

definition digits_value :: "nat \<Rightarrow> string \<Rightarrow> nat" where
  "digits_value r ds = foldl (\<lambda>acc c. acc * r + (case digit_val c of None \<Rightarrow> 0 | Some d \<Rightarrow> d)) 0 ds"

definition digit_char :: "nat \<Rightarrow> char" where
  "digit_char d = char_of (48 + d)"

fun show_nat :: "nat \<Rightarrow> string" where
  "show_nat n = (if n < 10 then [digit_char n] else show_nat (n div 10) @ [digit_char (n mod 10)])"

declare show_nat.simps [simp del]

subsection \<open>Number to string\<close>

text \<open>
  \<open>Number::toString\<close> of ECMAScript for radix 10.  For \<open>x > 0\<close> let \<open>n\<close> be the decimal
  exponent (\<open>10^(n-1) \<le> x < 10^n\<close>) and \<open>ds\<close> the significant digits without trailing
  zeros; the source takes the shortest digits that read back as the same double, the model
  the first 17 digits of the real number.
\<close>

definition pow10 :: "int \<Rightarrow> real" where
  "pow10 e = (if 0 \<le> e then 10 ^ nat e else 1 / 10 ^ nat (- e))"

definition dec_exponent :: "real \<Rightarrow> int" where
  "dec_exponent x =
     (if 1 \<le> x then int (length (show_nat (nat \<lfloor>x\<rfloor>)))
      else let m = int (length (show_nat (nat \<lfloor>1 / x\<rfloor>)))
           in if x * pow10 (m - 1) = 1 then 2 - m else 1 - m)"

definition sig_digits :: "real \<Rightarrow> string" where
  "sig_digits x =
     rev (dropWhile (\<lambda>c. c = CHR ''0'')
            (rev (show_nat (nat \<lfloor>x * pow10 (17 - dec_exponent x)\<rfloor>))))"

definition pos_toString :: "real \<Rightarrow> string" where
  "pos_toString x =
     (let n = dec_exponent x; ds = sig_digits x; k = int (length ds)
      in if k \<le> n \<and> n \<le> 21 then ds @ replicate (nat (n - k)) CHR ''0''
         else if 0 < n \<and> n \<le> 21 then take (nat n) ds @ ''.'' @ drop (nat n) ds
         else if - 6 < n \<and> n \<le> 0 then ''0.'' @ replicate (nat (- n)) CHR ''0'' @ ds
         else let e = n - 1;
                  es = (if e < 0 then ''-'' else ''+'') @ show_nat (nat \<bar>e\<bar>)
              in if k = 1 then ds @ ''e'' @ es
                 else take 1 ds @ ''.'' @ drop 1 ds @ ''e'' @ es)"

definition number_toString :: "real \<Rightarrow> string" where
  "number_toString x =
     (if x = 0 then ''0''
      else if x < 0 then ''-'' @ pos_toString (- x)
      else pos_toString x)"

subsection \<open>String to number\<close>

text \<open>
  \<open>parseInt(s)\<close> and \<open>parseInt(s, 10)\<close>: leading white space is skipped, a sign is read,
  without a radix argument a prefix \<open>0x\<close> selects radix 16, and the longest run of digits
  is the value; no digit gives NaN (\<open>None\<close>).
\<close>

definition js_parseInt :: "bool \<Rightarrow> string \<Rightarrow> int option" where
  "js_parseInt stripPrefix s =
     (let s1 = dropWhile is_ws s;
          neg = starts_with s1 ''-'';
          s2 = (if starts_with s1 ''-'' \<or> starts_with s1 ''+'' then drop 1 s1 else s1);
          hex = (stripPrefix \<and> (starts_with s2 ''0x'' \<or> starts_with s2 ''0X''));
          r = (if hex then 16 else 10);
          s3 = (if hex then drop 2 s2 else s2);
          z = takeWhile (is_radix_digit r) s3
      in if z = [] then None
         else Some ((if neg then - 1 else 1) * int (digits_value r z)))"

text \<open>
  \<open>StringToNumber\<close>, the coercion \<open>Number(s)\<close>: the whole trimmed string must be a
  numeric literal; the empty string is 0.
\<close>

definition radix_literal :: "nat \<Rightarrow> string \<Rightarrow> jsnum" where
  "radix_literal r ds =
     (if ds \<noteq> [] \<and> list_all (is_radix_digit r) ds then Fin (real (digits_value r ds)) else NaN)"

definition decimal_literal :: "string \<Rightarrow> jsnum" where
  "decimal_literal s =
     (let neg = starts_with s ''-'';
          s1 = (if starts_with s ''-'' \<or> starts_with s ''+'' then drop 1 s else s);
          ip = takeWhile is_digit s1;
          r1 = dropWhile is_digit s1;
          hasDot = starts_with r1 ''.'';
          r2 = (if hasDot then drop 1 r1 else r1);
          fp = (if hasDot then takeWhile is_digit r2 else []);
          r3 = (if hasDot then dropWhile is_digit r2 else r2);
          hasExp = (starts_with r3 ''e'' \<or> starts_with r3 ''E'');
          r4 = (if hasExp then drop 1 r3 else r3);
          eneg = starts_with r4 ''-'';
          r5 = (if hasExp \<and> (starts_with r4 ''-'' \<or> starts_with r4 ''+'') then drop 1 r4 else r4);
          ep = (if hasExp then takeWhile is_digit r5 else []);
          r6 = (if hasExp then dropWhile is_digit r5 else r5);
          e = (if eneg then - int (digits_value 10 ep) else int (digits_value 10 ep))
      in if s1 = ''Infinity'' then (if neg then NegInf else PosInf)
         else if ip @ fp = [] \<or> (hasExp \<and> ep = []) \<or> r6 \<noteq> [] then NaN
         else Fin ((if neg then - 1 else 1) * real (digits_value 10 (ip @ fp))
                     * pow10 (e - int (length fp))))"

definition string_to_number :: "string \<Rightarrow> jsnum" where
  "string_to_number s =
     (let t = trim s
      in if t = [] then Fin 0
         else if starts_with t ''0x'' \<or> starts_with t ''0X'' then radix_literal 16 (drop 2 t)
         else if starts_with t ''0o'' \<or> starts_with t ''0O'' then radix_literal 8 (drop 2 t)
         else if starts_with t ''0b'' \<or> starts_with t ''0B'' then radix_literal 2 (drop 2 t)
         else decimal_literal t)"

subsection \<open>Coercions and property access\<close>

definition has_key :: "(string \<times> json) list \<Rightarrow> string \<Rightarrow> bool" where
  "has_key kvs k = (k \<in> set (map fst kvs))"

text \<open>
  \<open>String(v)\<close>, also the coercion of a template literal and of \<open>parseInt\<close>.  \<open>None\<close> is a
  thrown TypeError: an object whose own property \<open>toString\<close> hides the inherited method has
  no callable conversion (a decoded property is never a function, and the inherited
  \<open>valueOf\<close> returns the object itself).  An array is the join of its elements by commas,
  \<open>null\<close> and \<open>undefined\<close> elements as empty strings.
\<close>

fun js_toString :: "json \<Rightarrow> string option"
  and join_elems :: "json list \<Rightarrow> string option" where
  "js_toString JUndefined = Some ''undefined''"
| "js_toString JNull = Some ''null''"
| "js_toString (JBool b) = Some (if b then ''true'' else ''false'')"
| "js_toString (JNum x) = Some (number_toString x)"
| "js_toString (JStr s) = Some s"
| "js_toString (JArr xs) = join_elems xs"
| "js_toString (JObj kvs) = (if has_key kvs ''toString'' then None else Some ''[object Object]'')"
| "js_toString JFunction = Some ''function () { [native code] }''"
| "join_elems [] = Some []"
| "join_elems (x # xs) =
     (case (if x = JNull \<or> x = JUndefined then Some [] else js_toString x) of
        None \<Rightarrow> None
      | Some a \<Rightarrow>
          (if xs = [] then Some a
           else case join_elems xs of None \<Rightarrow> None | Some b \<Rightarrow> Some (a @ '','' @ b)))"

text \<open>\<open>Number(v)\<close>; an object or array is first converted to its string.\<close>

fun to_number :: "json \<Rightarrow> jsnum option" where
  "to_number JUndefined = Some NaN"
| "to_number JNull = Some (Fin 0)"
| "to_number (JBool b) = Some (Fin (if b then 1 else 0))"
| "to_number (JNum x) = Some (Fin x)"
| "to_number (JStr s) = Some (string_to_number s)"
| "to_number (JArr xs) = map_option string_to_number (js_toString (JArr xs))"
| "to_number (JObj kvs) = map_option string_to_number (js_toString (JObj kvs))"
| "to_number JFunction = Some NaN"

text \<open>The comparison \<open>v > 0\<close>.\<close>

definition js_gt0 :: "json \<Rightarrow> bool option" where
  "js_gt0 v =
     map_option (\<lambda>n. case n of Fin x \<Rightarrow> 0 < x | PosInf \<Rightarrow> True | NegInf \<Rightarrow> False | NaN \<Rightarrow> False)
       (to_number v)"

text \<open>\<open>parseInt(v)\<close> and \<open>parseInt(v, 10)\<close> of any value: \<open>Some None\<close> is NaN.\<close>

definition parseInt :: "bool \<Rightarrow> json \<Rightarrow> int option option" where
  "parseInt stripPrefix v = map_option (js_parseInt stripPrefix) (js_toString v)"

text \<open>
  \<open>k in v\<close> throws on a primitive; \<open>v.k\<close> throws on \<open>null\<close> and \<open>undefined\<close>.  Own properties
  only: none of the names the adapter asks for is a member of \<open>Object.prototype\<close> or
  \<open>Array.prototype\<close>.
\<close>

definition array_own :: "string \<Rightarrow> json list \<Rightarrow> bool" where
  "array_own k xs = (k = ''length'' \<or> k \<in> set (map show_nat [0..<length xs]))"

fun js_in :: "string \<Rightarrow> json \<Rightarrow> bool option" where
  "js_in k (JObj kvs) = Some (has_key kvs k)"
| "js_in k (JArr xs) = Some (array_own k xs)"
| "js_in k JFunction = Some (k = ''length'' \<or> k = ''name'')"
| "js_in k v = None"

definition array_get :: "json list \<Rightarrow> string \<Rightarrow> json" where
  "array_get xs k =
     (if k = ''length'' then JNum (real (length xs))
      else case find (\<lambda>i. show_nat i = k) [0..<length xs] of
             Some i \<Rightarrow> xs ! i
           | None \<Rightarrow> JUndefined)"

fun js_get :: "json \<Rightarrow> string \<Rightarrow> json option" where
  "js_get JUndefined k = None"
| "js_get JNull k = None"
| "js_get (JObj kvs) k = Some (case map_of kvs k of Some v \<Rightarrow> v | None \<Rightarrow> JUndefined)"
| "js_get (JArr xs) k = Some (array_get xs k)"
| "js_get (JStr s) k = Some (if k = ''length'' then JNum (real (length s)) else JUndefined)"
| "js_get v k = Some JUndefined"

section \<open>The response parser\<close>

text \<open>
  \<open>parseOrderResponse(responseData, operation)\<close> returns
  \<open>{ retcode, order?, comment, orderData? }\<close>; \<open>retcode\<close> 10009 is Success, anything else a
  Failure.  \<open>None\<close> is a thrown TypeError.  A property the source copies from the body keeps
  the body's value, whatever its type.
\<close>

record order_result =
  retcode :: real
  order :: "json option"
  comment :: json
  orderData :: "json option"

definition is_success :: "order_result \<Rightarrow> bool" where
  "is_success r = (retcode r = 10009)"

text \<open>The branch \<open>if ('retcode' in responseData)\<close>.\<close>

definition parse_retcode :: "json \<Rightarrow> string \<Rightarrow> order_result option" where
  "parse_retcode d operation = do {
     raw \<leftarrow> js_get d ''retcode'';
     p \<leftarrow> parseInt True raw;
     let rc = (case p of Some n \<Rightarrow> (if n \<noteq> 0 then JNum (real_of_int n) else raw) | None \<Rightarrow> raw);
     shown \<leftarrow> js_toString rc;
     ord \<leftarrow> js_get d ''order'';
     ticket \<leftarrow> js_get d ''ticket'';
     cmt \<leftarrow> js_get d ''comment'';
     message \<leftarrow> js_get d ''message'';
     if rc = JNum 10009 \<or> rc = JStr ''10009'' then
       Some \<lparr>retcode = 10009,
             order = Some (js_or (js_or ord ticket) (JNum 0)),
             comment = js_or (js_or cmt message) (JStr (operation @ '' successful'')),
             orderData = None\<rparr>
     else do {
       q \<leftarrow> parseInt True rc;
       Some \<lparr>retcode = (case q of Some n \<Rightarrow> (if n \<noteq> 0 then real_of_int n else 10004)
                                  | None \<Rightarrow> 10004),
             order = None,
             comment = js_or (js_or cmt message)
                         (JStr (operation @ '' failed with retcode: '' @ shown)),
             orderData = None\<rparr>
     }
   }"

text \<open>The branch \<open>if ('success' in responseData)\<close>.\<close>

definition parse_success :: "json \<Rightarrow> string \<Rightarrow> order_result option" where
  "parse_success d operation = do {
     s \<leftarrow> js_get d ''success'';
     ord \<leftarrow> js_get d ''order'';
     ticket \<leftarrow> js_get d ''ticket'';
     cmt \<leftarrow> js_get d ''comment'';
     message \<leftarrow> js_get d ''message'';
     if s = JBool True \<or> s = JStr ''true'' then
       Some \<lparr>retcode = 10009,
             order = Some (js_or (js_or ord ticket) (JNum 0)),
             comment = js_or (js_or message cmt) (JStr (operation @ '' successful'')),
             orderData = None\<rparr>
     else
       Some \<lparr>retcode = 10004,
             order = None,
             comment = js_or (js_or message cmt) (JStr (operation @ '' failed'')),
             orderData = None\<rparr>
   }"

text \<open>
  The branch \<open>if ('error' in responseData || 'Error' in responseData)\<close>; its log line renders
  \<open>errorMsg\<close> in a template literal.
\<close>

definition parse_error :: "json \<Rightarrow> string \<Rightarrow> order_result option" where
  "parse_error d operation = do {
     e1 \<leftarrow> js_get d ''error'';
     e2 \<leftarrow> js_get d ''Error'';
     let errorMsg = js_or e1 e2;
     logged \<leftarrow> js_toString errorMsg;
     Some \<lparr>retcode = 10004,
           order = None,
           comment = js_or errorMsg (JStr (operation @ '' failed'')),
           orderData = None\<rparr>
   }"

text \<open>
  The rest of the object branch: the keywords of a string \<open>message\<close>, then a positive
  \<open>order\<close>, then the default "unrecognized object, assume success".
\<close>

definition parse_order_or_default :: "json \<Rightarrow> string \<Rightarrow> order_result option" where
  "parse_order_or_default d operation = do {
     hasOrder \<leftarrow> js_in ''order'' d;
     ord \<leftarrow> js_get d ''order'';
     orderPos \<leftarrow> (if hasOrder then js_gt0 ord else Some False);
     cmt \<leftarrow> js_get d ''comment'';
     message \<leftarrow> js_get d ''message'';
     if orderPos then
       Some \<lparr>retcode = 10009,
             order = Some ord,
             comment = js_or (js_or cmt message) (JStr (operation @ '' successful'')),
             orderData = None\<rparr>
     else
       Some \<lparr>retcode = 10009,
             order = None,
             comment = JStr (operation @ '' completed (unrecognized response format)''),
             orderData = None\<rparr>
   }"

definition parse_message :: "json \<Rightarrow> string \<Rightarrow> order_result option" where
  "parse_message d operation = do {
     hasMessage \<leftarrow> js_in ''message'' d;
     m \<leftarrow> js_get d ''message'';
     ord \<leftarrow> js_get d ''order'';
     ticket \<leftarrow> js_get d ''ticket'';
     case (hasMessage, m) of
       (True, JStr text) \<Rightarrow>
         (let message = toLowerCase text
          in if str_includes message ''success'' \<or> str_includes message ''executed''
                \<or> str_includes message ''placed'' then
               Some \<lparr>retcode = 10009,
                     order = Some (js_or (js_or ord ticket) (JNum 0)),
                     comment = m,
                     orderData = None\<rparr>
             else if str_includes message ''error'' \<or> str_includes message ''failed''
                \<or> str_includes message ''invalid'' then
               Some \<lparr>retcode = 10004, order = None, comment = m, orderData = None\<rparr>
             else parse_order_or_default d operation)
     | _ \<Rightarrow> parse_order_or_default d operation
   }"

text \<open>The branch \<open>if (typeof responseData === 'object')\<close>, entered with a non-null value.\<close>

definition parse_object :: "json \<Rightarrow> string \<Rightarrow> order_result option" where
  "parse_object d operation = do {
     hasTicket \<leftarrow> js_in ''ticket'' d;
     ticket \<leftarrow> js_get d ''ticket'';
     ticketPos \<leftarrow> (if hasTicket then js_gt0 ticket else Some False);
     if ticketPos then do {
       shown \<leftarrow> js_toString ticket;
       message \<leftarrow> js_get d ''message'';
       cmt \<leftarrow> js_get d ''comment'';
       Some \<lparr>retcode = 10009,
             order = Some ticket,
             comment = js_or (js_or message cmt) (JStr (operation @ '' successful'')),
             orderData = Some d\<rparr>
     } else do {
       hasRetcode \<leftarrow> js_in ''retcode'' d;
       hasSuccess \<leftarrow> js_in ''success'' d;
       hasError \<leftarrow> js_in ''error'' d;
       hasError2 \<leftarrow> js_in ''Error'' d;
       if hasRetcode then parse_retcode d operation
       else if hasSuccess then parse_success d operation
       else if hasError \<or> hasError2 then parse_error d operation
       else parse_message d operation
     }
   }"

text \<open>The branch \<open>if (typeof responseData === 'string')\<close>.\<close>

definition parse_keywords :: "string \<Rightarrow> order_result" where
  "parse_keywords responseData =
     (let lowerResponse = toLowerCase responseData
      in if str_includes lowerResponse ''success'' \<or> str_includes lowerResponse ''executed''
            \<or> str_includes lowerResponse ''placed'' \<or> lowerResponse = ''ok''
            \<or> lowerResponse = ''true'' then
           \<lparr>retcode = 10009, order = None, comment = JStr responseData, orderData = None\<rparr>
         else if str_includes lowerResponse ''error'' \<or> str_includes lowerResponse ''failed''
            \<or> str_includes lowerResponse ''invalid'' \<or> str_includes lowerResponse ''denied'' then
           \<lparr>retcode = 10004, order = None, comment = JStr responseData, orderData = None\<rparr>
         else
           \<lparr>retcode = 10009, order = None, comment = JStr responseData, orderData = None\<rparr>)"

definition parse_string :: "string \<Rightarrow> string \<Rightarrow> order_result" where
  "parse_string responseData operation =
     (case js_parseInt False responseData of
        Some ticketNumber \<Rightarrow>
          if 0 < ticketNumber then
            \<lparr>retcode = 10009,
             order = Some (JNum (real_of_int ticketNumber)),
             comment = JStr (operation @ '' successful''),
             orderData = None\<rparr>
          else parse_keywords responseData
      | None \<Rightarrow> parse_keywords responseData)"

text \<open>The branch \<open>if (typeof responseData === 'number')\<close>.\<close>

definition parse_number :: "real \<Rightarrow> string \<Rightarrow> order_result" where
  "parse_number responseData operation =
     (if 0 < responseData then
        \<lparr>retcode = 10009, order = Some (JNum responseData),
         comment = JStr (operation @ '' successful''), orderData = None\<rparr>
      else if responseData = 0 then
        \<lparr>retcode = 10009, order = None,
         comment = JStr (operation @ '' completed''), orderData = None\<rparr>
      else
        \<lparr>retcode = (if \<bar>responseData\<bar> \<noteq> 0 then \<bar>responseData\<bar> else 10004), order = None,
         comment = JStr (operation @ '' failed with code: '' @ number_toString responseData),
         orderData = None\<rparr>)"

definition parseOrderResponse :: "json \<Rightarrow> string \<Rightarrow> order_result option" where
  "parseOrderResponse responseData operation =
     (if responseData = JNull \<or> responseData = JUndefined then
        Some \<lparr>retcode = 10009, order = None,
              comment = JStr (operation @ '' completed successfully''), orderData = None\<rparr>
      else if typeof responseData = ''object'' then parse_object responseData operation
      else case responseData of
             JStr s \<Rightarrow> Some (parse_string s operation)
           | JNum x \<Rightarrow> Some (parse_number x operation)
           | JBool b \<Rightarrow>
               Some \<lparr>retcode = (if b then 10009 else 10004), order = None,
                     comment = JStr (if b then operation @ '' successful''
                                     else operation @ '' failed''),
                     orderData = None\<rparr>
           | _ \<Rightarrow>
               Some \<lparr>retcode = 10004, order = None,
                     comment = JStr (operation @ '' failed - unexpected response format''),
                     orderData = None\<rparr>)"

text \<open>
  An object body none of whose members is itself an object with an own \<open>toString\<close> member:
  every member has a string and a number.
\<close>

definition plain :: "(string \<times> json) list \<Rightarrow> bool" where
  "plain kvs = list_all (\<lambda>kv. js_toString (snd kv) \<noteq> None) kvs"

section \<open>The adapter: state, transport and session token\<close>

text \<open>
  What \<open>await this.apiClient.get(path, { params })\<close> yields: a response with its status and
  decoded body, or a thrown error.  The HTTP client rejects a response whose status is
  outside 2xx with an \<open>AxiosError\<close> whose message is
  \<open>Request failed with status code N\<close> and whose \<open>response\<close> carries the status and the body.
\<close>

datatype exn =
    AxiosError string "string option" "(nat \<times> json) option"
  | Error string
  | TypeError string

fun exn_message :: "exn \<Rightarrow> string" where
  "exn_message (AxiosError m c r) = m"
| "exn_message (Error m) = m"
| "exn_message (TypeError m) = m"

text \<open>\<open>error.response?.status\<close> and \<open>error.code\<close>.\<close>

fun exn_status :: "exn \<Rightarrow> nat option" where
  "exn_status (AxiosError m c r) = map_option fst r"
| "exn_status (Error m) = None"
| "exn_status (TypeError m) = None"

fun exn_code :: "exn \<Rightarrow> string option" where
  "exn_code (AxiosError m c r) = c"
| "exn_code (Error m) = None"
| "exn_code (TypeError m) = None"

datatype http_result = Resolved nat json | Rejected exn

datatype request = Request string string "(string \<times> json) list"

fun req_path :: "request \<Rightarrow> string" where
  "req_path (Request m p ps) = p"

fun req_params :: "request \<Rightarrow> (string \<times> json) list" where
  "req_params (Request m p ps) = ps"

text \<open>
  The bridge answers a request knowing the requests made before it.  Every property below
  holds for every bridge.
\<close>

type_synonym bridge = "request list \<Rightarrow> request \<Rightarrow> http_result"

datatype 'a outcome = Returned 'a | Threw exn

record client =
  client_baseURL :: string
  client_timeout :: nat
  client_headers :: "(string \<times> string) list"
  client_serial :: nat

text \<open>
  The fields of the class, the entry \<open>mt5_token\<close> of \<open>localStorage\<close> (\<open>stored\<close>), the requests
  issued so far, oldest first, and the number of transport clients created so far.
\<close>

record adapter =
  apiClient :: client
  token :: "string option"
  baseURL :: string
  apiKey :: string
  stored :: "string option"
  log :: "request list"
  clients_created :: nat

definition axios_create :: "adapter \<Rightarrow> adapter" where
  "axios_create s =
     s\<lparr>apiClient :=
         \<lparr>client_baseURL = baseURL s, client_timeout = 30000,
          client_headers = [(''Content-Type'', ''application/json''), (''ApiKey'', apiKey s)],
          client_serial = clients_created s\<rparr>,
       clients_created := Suc (clients_created s)\<rparr>"

definition http_get :: "bridge \<Rightarrow> adapter \<Rightarrow> string \<Rightarrow> (string \<times> json) list \<Rightarrow> http_result \<times> adapter" where
  "http_get b s path params =
     (let r = Request ''GET'' path params in (b (log s) r, s\<lparr>log := log s @ [r]\<rparr>))"

text \<open>\<open>!this.token\<close> is true for \<open>null\<close> and for the empty string.\<close>

definition has_token :: "adapter \<Rightarrow> bool" where
  "has_token s = (case token s of Some t \<Rightarrow> t \<noteq> [] | None \<Rightarrow> False)"

definition token_param :: "adapter \<Rightarrow> json" where
  "token_param s = (case token s of Some t \<Rightarrow> JStr t | None \<Rightarrow> JNull)"

definition setToken :: "string \<Rightarrow> adapter \<Rightarrow> adapter" where
  "setToken t s = s\<lparr>token := Some t, stored := Some t\<rparr>"

definition getStoredToken :: "adapter \<Rightarrow> string option" where
  "getStoredToken s = stored s"

definition clearToken :: "adapter \<Rightarrow> adapter" where
  "clearToken s = s\<lparr>token := None, stored := None\<rparr>"

text \<open>The test of the \<open>catch\<close> blocks of the read and trade operations.\<close>

definition auth_message :: "string \<Rightarrow> bool" where
  "auth_message m =
     (str_includes m ''Authentication failed'' \<or> str_includes m ''Session expired''
      \<or> str_includes m ''Invalid token'')"

definition is_auth_error :: "exn \<Rightarrow> bool" where
  "is_auth_error e = (auth_message (exn_message e) \<or> exn_status e = Some 401)"

text \<open>\<open>error.message || fallback\<close>.\<close>

definition message_or :: "exn \<Rightarrow> string \<Rightarrow> string" where
  "message_or e fallback = (if exn_message e \<noteq> [] then exn_message e else fallback)"

section \<open>Open positions\<close>

text \<open>
  \<open>Position\<close> as \<open>getPositions\<close> builds it.  The fields have their declared types: a number
  field reads a JSON number (\<open>x || 0\<close>), a string field a JSON string (\<open>x || ''\<close>); a truthy
  value of another JSON type, which the source would pass through unchanged, is read as
  the default.
\<close>

record Position =
  ticket :: real
  symbol :: string
  orderType :: string
  volume :: real
  rawVolume :: real
  openPrice :: real
  currentPrice :: real
  profit :: real
  swap :: real
  commission :: real
  openTime :: string
  pcomment :: string

text \<open>\<open>v.k\<close> on a value known not to be \<open>null\<close> or \<open>undefined\<close>.\<close>

definition field :: "json \<Rightarrow> string \<Rightarrow> json" where
  "field v k = (case js_get v k of Some x \<Rightarrow> x | None \<Rightarrow> JUndefined)"

definition num_field :: "json \<Rightarrow> string \<Rightarrow> real" where
  "num_field v k = (case field v k of JNum x \<Rightarrow> x | _ \<Rightarrow> 0)"

definition str_field :: "json \<Rightarrow> string \<Rightarrow> string" where
  "str_field v k = (case field v k of JStr x \<Rightarrow> x | _ \<Rightarrow> [])"

definition is_array :: "json \<Rightarrow> bool" where
  "is_array v = (case v of JArr xs \<Rightarrow> True | _ \<Rightarrow> False)"

definition elements :: "json \<Rightarrow> json list" where
  "elements v = (case v of JArr xs \<Rightarrow> xs | _ \<Rightarrow> [])"

definition position_of :: "json \<Rightarrow> Position" where
  "position_of position =
     \<lparr>ticket = num_field position ''ticket'',
      symbol = str_field position ''symbol'',
      orderType = str_field position ''orderType'',
      volume = num_field position ''lots'',
      rawVolume = num_field position ''volume'',
      openPrice = num_field position ''openPrice'',
      currentPrice = (if num_field position ''closePrice'' \<noteq> 0 then num_field position ''closePrice''
                      else num_field position ''openPrice''),
      profit = num_field position ''profit'',
      swap = num_field position ''swap'',
      commission = num_field position ''commission'',
      openTime = str_field position ''openTime'',
      pcomment = str_field position ''comment''\<rparr>"

definition is_market_order :: "json \<Rightarrow> bool" where
  "is_market_order ord =
     (truthy ord \<and> (field ord ''orderType'' = JStr ''Buy'' \<or> field ord ''orderType'' = JStr ''Sell''))"

text \<open>The body of the \<open>if\<close> of \<open>getPositions\<close>, entered with a truthy \<open>response.data\<close>.\<close>

definition decode_positions :: "json \<Rightarrow> Position list" where
  "decode_positions d =
     (if is_array d then map position_of (filter is_market_order (elements d))
      else if typeof d = ''object'' then
        (let ordersData =
               (if is_array (field d ''orders'') then elements (field d ''orders'')
                else if is_array (field d ''data'') then elements (field d ''data'')
                else if is_array (field d ''positions'') then elements (field d ''positions'')
                else [d])
         in map position_of (filter is_market_order ordersData))
      else [])"

definition getPositions :: "bridge \<Rightarrow> adapter \<Rightarrow> Position list outcome \<times> adapter" where
  "getPositions b s =
     (if \<not> has_token s then (Returned [], s)
      else case http_get b s ''/OpenedOrders'' [(''id'', token_param s)] of
             (Resolved st d, s1) \<Rightarrow>
               if (st = 200 \<or> st = 201) \<and> truthy d then (Returned (decode_positions d), s1)
               else (Returned [], s1)
           | (Rejected e, s1) \<Rightarrow>
               (Threw (Error (message_or e ''Failed to retrieve positions'')),
                if is_auth_error e then clearToken s1 else s1))"

section \<open>Closing a position\<close>

record VolumeFormatEntry =
  "value" :: real
  description :: string

text \<open>\<open>Math.abs(a - b) < 0.000001\<close>.\<close>

definition near :: "real \<Rightarrow> real \<Rightarrow> bool" where
  "near a b = (\<bar>a - b\<bar> < 1 / 1000000)"

text \<open>The multiplication and division signs of the descriptions, as code units.\<close>

definition times_sign :: string where
  "times_sign = [CHR 0xD7]"

definition div_sign :: string where
  "div_sign = [CHR 0xF7]"

definition scalingFactors :: "(real \<times> string) list" where
  "scalingFactors =
     [(1000, ''Volume '' @ times_sign @ '' 1000 (micro lots to units)''),
      (10000, ''Volume '' @ times_sign @ '' 10000 (mini lots to units)''),
      (100000, ''Volume '' @ times_sign @ '' 100000 (standard lots to units)''),
      (1 / 1000, ''Volume '' @ div_sign @ '' 1000 (units to micro lots)''),
      (1 / 10000, ''Volume '' @ div_sign @ '' 10000 (units to mini lots)''),
      (1 / 100000, ''Volume '' @ div_sign @ '' 100000 (units to standard lots)''),
      (10, ''Volume '' @ times_sign @ '' 10''),
      (100, ''Volume '' @ times_sign @ '' 100''),
      (1 / 10, ''Volume '' @ div_sign @ '' 10''),
      (1 / 100, ''Volume '' @ div_sign @ '' 100'')]"

definition rawScalingFactors :: "(real \<times> string) list" where
  "rawScalingFactors =
     map (\<lambda>factor. (factor, ''Raw volume '' @ times_sign @ '' '' @ number_toString factor))
       [1000, 1 / 1000, 100, 1 / 100, 10, 1 / 10]"

text \<open>
  One step of the two \<open>forEach\<close> loops: the scaled volume is appended when it lies in
  \<open>(0, 1000000)\<close> and no entry of the list so far is within the tolerance.
\<close>

definition add_scaled :: "real \<Rightarrow> VolumeFormatEntry list \<Rightarrow> real \<times> string \<Rightarrow> VolumeFormatEntry list" where
  "add_scaled base volumeFormats fd =
     (let scaledVolume = base * fst fd
      in if 0 < scaledVolume \<and> scaledVolume < 1000000
            \<and> \<not> list_ex (\<lambda>v. near (value v) scaledVolume) volumeFormats
         then volumeFormats @ [\<lparr>value = scaledVolume, description = snd fd\<rparr>]
         else volumeFormats)"

definition fallbackVolumes :: "VolumeFormatEntry list" where
  "fallbackVolumes =
     map (\<lambda>vol. \<lparr>value = vol, description = ''Fallback volume '' @ number_toString vol\<rparr>)
       [1 / 100, 1 / 10, 1, 10, 100, 1000, 10000, 100000]"

text \<open>Step 2 of \<open>closePosition\<close>: the list \<open>volumeFormats\<close>.\<close>

definition provided_formats :: "real option \<Rightarrow> VolumeFormatEntry list" where
  "provided_formats volumeToClose =
     (case volumeToClose of
        Some v \<Rightarrow> if v \<noteq> 0 \<and> 0 < v then [\<lparr>value = v, description = ''Provided volume''\<rparr>] else []
      | None \<Rightarrow> [])"

definition lots_format :: "Position \<Rightarrow> VolumeFormatEntry" where
  "lots_format p = \<lparr>value = volume p, description = ''Position lots volume''\<rparr>"

definition volume_formats :: "real option \<Rightarrow> Position option \<Rightarrow> VolumeFormatEntry list" where
  "volume_formats volumeToClose positionDetails =
     (let provided = provided_formats volumeToClose;
          fromPosition =
            (case positionDetails of
               None \<Rightarrow> provided
             | Some p \<Rightarrow>
                 (let lots = (if 0 < volume p then provided @ [lots_format p] else provided);
                      raw = (if rawVolume p \<noteq> 0 \<and> rawVolume p \<noteq> volume p
                             then lots @ [\<lparr>value = rawVolume p, description = ''Position raw volume''\<rparr>]
                             else lots);
                      scaled = (if 0 < volume p then foldl (add_scaled (volume p)) raw scalingFactors
                                else raw)
                  in if rawVolume p \<noteq> 0 \<and> 0 < rawVolume p
                     then foldl (add_scaled (rawVolume p)) scaled rawScalingFactors
                     else scaled))
      in if fromPosition = [] then fallbackVolumes else fromPosition)"

text \<open>\<open>Array.prototype.findIndex\<close>; \<open>None\<close> is the source's \<open>-1\<close>.\<close>

fun findIndex :: "('a \<Rightarrow> bool) \<Rightarrow> 'a list \<Rightarrow> nat option" where
  "findIndex P [] = None"
| "findIndex P (x # xs) = (if P x then Some 0 else map_option Suc (findIndex P xs))"

text \<open>
  \<open>volumeFormats.filter((format, index, self) => index === self.findIndex(f => near f format))\<close>:
  an entry stays when the first entry of the whole list within the tolerance of it is itself.
\<close>

definition unique_formats :: "VolumeFormatEntry list \<Rightarrow> VolumeFormatEntry list" where
  "unique_formats self =
     map snd (filter (\<lambda>(index, format).
                         findIndex (\<lambda>f. near (value f) (value format)) self = Some index)
                (enumerate 0 self))"

record close_result =
  cr_retcode :: real
  cr_ticket :: "json option"
  cr_comment :: json
  volumeUsed :: "real option"
  attemptNumber :: "nat option"
  formatDescription :: "string option"

text \<open>
  \<open>c && (c.includes(p1) || c.includes(p2) || ...)\<close> for a comment \<open>c\<close> of any type: a string
  is searched, an array is asked for an equal element, and any other truthy value has no
  method \<open>includes\<close> (\<open>None\<close>, a TypeError).
\<close>

definition matches_any :: "json \<Rightarrow> string list \<Rightarrow> bool option" where
  "matches_any c ps =
     (if \<not> truthy c then Some False
      else case c of
             JStr s \<Rightarrow> Some (list_ex (str_includes s) ps)
           | JArr xs \<Rightarrow> Some (list_ex (\<lambda>p. JStr p \<in> set xs) ps)
           | _ \<Rightarrow> None)"

definition closed_patterns :: "string list" where
  "closed_patterns =
     [''position with the specified position_identifier has already been closed'',
      ''already been closed'', ''position not exists'', ''POSITION_NOT_EXISTS'',
      ''no such position'', ''not found'']"

definition invalid_volume_patterns :: "string list" where
  "invalid_volume_patterns =
     [''invalid volume'', ''invalid lots'', ''wrong volume'', ''incorrect volume'']"

definition closed_error_patterns :: "string list" where
  "closed_error_patterns =
     [''position not found'', ''already closed'', ''POSITION_NOT_EXISTS'',
      ''no such position'', ''not found'']"

text \<open>What one pass of the loop body does: return a result, rethrow, or go on.\<close>

datatype attempt = Done close_result | Abort exn | Continue

definition already_closed :: "real \<Rightarrow> nat \<Rightarrow> VolumeFormatEntry \<Rightarrow> close_result" where
  "already_closed t i format =
     \<lparr>cr_retcode = 10009, cr_ticket = Some (JNum t), cr_comment = JStr ''Position already closed'',
      volumeUsed = Some (value format), attemptNumber = Some (i + 1), formatDescription = None\<rparr>"

text \<open>The \<open>catch (attemptError)\<close> block.  It does not look at \<open>attemptError.response\<close>.\<close>

definition attempt_catch :: "real \<Rightarrow> nat \<Rightarrow> VolumeFormatEntry \<Rightarrow> exn \<Rightarrow> attempt" where
  "attempt_catch t i format attemptError =
     (let m = exn_message attemptError
      in if m \<noteq> [] \<and> list_ex (str_includes m) closed_error_patterns then Done (already_closed t i format)
         else if m \<noteq> [] \<and> auth_message m then Abort attemptError
         else Continue)"

text \<open>The \<open>try\<close> block after the request has resolved.\<close>

definition attempt_response :: "real \<Rightarrow> nat \<Rightarrow> VolumeFormatEntry \<Rightarrow> nat \<Rightarrow> json \<Rightarrow> attempt" where
  "attempt_response t i format st d =
     (if st = 200 \<or> st = 201 then
        case parseOrderResponse d ''OrderClose'' of
          None \<Rightarrow> attempt_catch t i format (TypeError ''Cannot convert object to primitive value'')
        | Some result \<Rightarrow>
            (case matches_any (comment result) closed_patterns of
               None \<Rightarrow> attempt_catch t i format (TypeError ''result.comment.includes is not a function'')
             | Some True \<Rightarrow> Done (already_closed t i format)
             | Some False \<Rightarrow>
                 (case matches_any (comment result) invalid_volume_patterns of
                    None \<Rightarrow> attempt_catch t i format
                              (TypeError ''result.comment.includes is not a function'')
                  | Some True \<Rightarrow> Continue
                  | Some False \<Rightarrow>
                      if retcode result = 10009 then
                        Done \<lparr>cr_retcode = 10009,
                              cr_ticket = Some (js_or (case order result of Some v \<Rightarrow> v | None \<Rightarrow> JUndefined)
                                                  (JNum t)),
                              cr_comment = js_or (comment result) (JStr ''Position closed successfully''),
                              volumeUsed = Some (value format),
                              attemptNumber = Some (i + 1),
                              formatDescription = Some (description format)\<rparr>
                      else (case js_toString (comment result) of
                              None \<Rightarrow> attempt_catch t i format
                                        (TypeError ''Cannot convert object to primitive value'')
                            | Some logged \<Rightarrow> Continue)))
      else Continue)"

definition attempt_outcome :: "real \<Rightarrow> nat \<Rightarrow> VolumeFormatEntry \<Rightarrow> http_result \<Rightarrow> attempt" where
  "attempt_outcome t i format res =
     (case res of
        Resolved st d \<Rightarrow> attempt_response t i format st d
      | Rejected e \<Rightarrow> attempt_catch t i format e)"

definition close_params :: "adapter \<Rightarrow> real \<Rightarrow> VolumeFormatEntry \<Rightarrow> (string \<times> json) list" where
  "close_params s t format =
     [(''id'', token_param s), (''ticket'', JNum t), (''slippage'', JNum 10)]
     @ (if 0 < value format then [(''lots'', JNum (value format))] else [])"

text \<open>
  Step 3, the loop \<open>for (let i = 0; i < uniqueFormats.length; i++)\<close> from index \<open>i\<close> on.  On the
  last candidate the branches that do not \<open>continue\<close> fall out of the loop body, which ends
  the loop as well.  A rethrown authentication error has cleared the token.
\<close>

fun try_formats :: "bridge \<Rightarrow> real \<Rightarrow> nat \<Rightarrow> VolumeFormatEntry list \<Rightarrow> adapter \<Rightarrow> attempt \<times> adapter" where
  "try_formats b t i [] s = (Continue, s)"
| "try_formats b t i (format # rest) s =
     (case http_get b s ''/OrderClose'' (close_params s t format) of
        (res, s1) \<Rightarrow>
          (case attempt_outcome t i format res of
             Done r \<Rightarrow> (Done r, s1)
           | Abort e \<Rightarrow> (Abort e, clearToken s1)
           | Continue \<Rightarrow> try_formats b t (Suc i) rest s1))"

definition failure :: "string \<Rightarrow> close_result" where
  "failure m =
     \<lparr>cr_retcode = 10004, cr_ticket = None, cr_comment = JStr m,
      volumeUsed = None, attemptNumber = None, formatDescription = None\<rparr>"

definition not_found_result :: "real \<Rightarrow> close_result" where
  "not_found_result t =
     \<lparr>cr_retcode = 10009, cr_ticket = Some (JNum t),
      cr_comment = JStr ''Position not found - may already be closed'',
      volumeUsed = None, attemptNumber = None, formatDescription = None\<rparr>"

text \<open>The candidates of a call: steps 1 and 2 after the positions query.\<close>

definition candidates :: "real option \<Rightarrow> Position option \<Rightarrow> VolumeFormatEntry list" where
  "candidates volumeToClose positionDetails = unique_formats (volume_formats volumeToClose positionDetails)"

definition probe :: "bridge \<Rightarrow> real \<Rightarrow> VolumeFormatEntry list \<Rightarrow> adapter \<Rightarrow> close_result outcome \<times> adapter" where
  "probe b t uniqueFormats s =
     (case try_formats b t 0 uniqueFormats s of
        (Done r, s2) \<Rightarrow> (Returned r, s2)
      | (Continue, s2) \<Rightarrow>
          (Returned (failure (''Failed to close position '' @ number_toString t @ '' - tried ''
                                @ show_nat (length uniqueFormats) @ '' different volume formats'')), s2)
      | (Abort e, s2) \<Rightarrow>
          (Returned (failure (message_or e ''Failed to close position'')),
           if is_auth_error e then clearToken s2 else s2))"

definition closePosition :: "bridge \<Rightarrow> adapter \<Rightarrow> real \<Rightarrow> real option \<Rightarrow> close_result outcome \<times> adapter" where
  "closePosition b s t volumeToClose =
     (if \<not> has_token s then (Returned (failure ''Not connected to MT5''), s)
      else case getPositions b s of
             (Returned positions, s1) \<Rightarrow>
               (case find (\<lambda>pos. ticket pos = t) positions of
                  None \<Rightarrow> (Returned (not_found_result t), s1)
                | Some positionDetails \<Rightarrow> probe b t (candidates volumeToClose (Some positionDetails)) s1)
           | (Threw positionError, s1) \<Rightarrow> probe b t (candidates volumeToClose None) s1)"

section \<open>Symbols\<close>

text \<open>\<open>s.split(/[\n,]/)\<close>: the pieces between separators, an empty string having one empty piece.\<close>

fun split_on :: "(char \<Rightarrow> bool) \<Rightarrow> string \<Rightarrow> string list" where
  "split_on P [] = [[]]"
| "split_on P (c # cs) =
     (if P c then [] # split_on P cs
      else case split_on P cs of
             w # ws \<Rightarrow> (c # w) # ws
           | [] \<Rightarrow> [[c]])"

definition string_elements :: "json list \<Rightarrow> string list" where
  "string_elements xs = List.map_filter (\<lambda>v. case v of JStr x \<Rightarrow> Some x | _ \<Rightarrow> None) xs"

text \<open>The body of the \<open>if\<close> of \<open>getSymbols\<close>, entered with a truthy \<open>response.data\<close>.\<close>

definition decode_symbols :: "json \<Rightarrow> string list" where
  "decode_symbols d =
     (if is_array d then string_elements (elements d)
      else case d of
             JStr text \<Rightarrow>
               filter (\<lambda>symbol. symbol \<noteq> [])
                 (map trim (split_on (\<lambda>c. c = CHR 0x0A \<or> c = CHR '','') text))
           | _ \<Rightarrow> [])"

definition getSymbols :: "bridge \<Rightarrow> adapter \<Rightarrow> string list outcome \<times> adapter" where
  "getSymbols b s =
     (if \<not> has_token s then (Returned [], s)
      else case http_get b s ''/SymbolList'' [(''id'', token_param s)] of
             (Resolved st d, s1) \<Rightarrow>
               if (st = 200 \<or> st = 201) \<and> truthy d then (Returned (decode_symbols d), s1)
               else (Returned [], s1)
           | (Rejected e, s1) \<Rightarrow>
               (Threw (Error (message_or e ''Failed to retrieve symbols'')),
                if is_auth_error e then clearToken s1 else s1))"

definition subscribeSymbol :: "bridge \<Rightarrow> adapter \<Rightarrow> string \<Rightarrow> bool \<times> adapter" where
  "subscribeSymbol b s symbolName =
     (if \<not> has_token s then (False, s)
      else case http_get b s ''/Subscribe'' [(''id'', token_param s), (''symbol'', JStr symbolName)] of
             (Resolved st d, s1) \<Rightarrow> (st = 200 \<or> st = 201, s1)
           | (Rejected e, s1) \<Rightarrow> (False, s1))"

text \<open>
  \<open>baseSymbol.replace(/\.(raw|m|c|pro|ecn|stp)$/i, "")\<close>: a match starts at the last dot
  and reaches the end of the string, so at most one alternative applies.
\<close>

definition broker_suffixes :: "string list" where
  "broker_suffixes = [''.raw'', ''.m'', ''.c'', ''.pro'', ''.ecn'', ''.stp'']"

definition strip_suffix :: "string \<Rightarrow> string" where
  "strip_suffix baseSymbol =
     (case find (ends_with (toLowerCase baseSymbol)) broker_suffixes of
        Some found \<Rightarrow> take (length baseSymbol - length found) baseSymbol
      | None \<Rightarrow> baseSymbol)"

definition is_gold :: "string \<Rightarrow> bool" where
  "is_gold symbolName = (str_includes (toLowerCase symbolName) ''xau'' \<or> str_includes (toLowerCase symbolName) ''gold'')"

definition is_silver :: "string \<Rightarrow> bool" where
  "is_silver symbolName = (str_includes (toLowerCase symbolName) ''xag'' \<or> str_includes (toLowerCase symbolName) ''silver'')"

definition goldCandidates :: "string \<Rightarrow> string list \<Rightarrow> string list" where
  "goldCandidates normalizedSymbol allSymbols =
     (if str_includes normalizedSymbol ''XAU'' \<or> str_includes normalizedSymbol ''GOLD''
      then filter is_gold allSymbols else [])"

definition silverCandidates :: "string \<Rightarrow> string list \<Rightarrow> string list" where
  "silverCandidates normalizedSymbol allSymbols =
     (if str_includes normalizedSymbol ''XAG'' \<or> str_includes normalizedSymbol ''SILVER''
      then filter is_silver allSymbols else [])"

definition partialMatches :: "string \<Rightarrow> string list \<Rightarrow> string list" where
  "partialMatches normalizedSymbol allSymbols =
     filter (\<lambda>symbolName. str_includes symbolName normalizedSymbol \<or> str_includes normalizedSymbol symbolName) allSymbols"

text \<open>\<open>findMatchingSymbol\<close> once the broker's symbols are known.\<close>

definition match_symbol :: "string \<Rightarrow> string list \<Rightarrow> string option" where
  "match_symbol baseSymbol allSymbols =
     (let normalizedSymbol = strip_suffix baseSymbol
      in if allSymbols = [] then None
         else if baseSymbol \<in> set allSymbols then Some baseSymbol
         else if normalizedSymbol \<in> set allSymbols then Some normalizedSymbol
         else case goldCandidates normalizedSymbol allSymbols of
                g # gs \<Rightarrow> Some g
              | [] \<Rightarrow>
                  (case silverCandidates normalizedSymbol allSymbols of
                     x # xs \<Rightarrow> Some x
                   | [] \<Rightarrow>
                       (case partialMatches normalizedSymbol allSymbols of
                          m # ms \<Rightarrow> Some m
                        | [] \<Rightarrow> None)))"

definition findMatchingSymbol :: "bridge \<Rightarrow> adapter \<Rightarrow> string \<Rightarrow> string option \<times> adapter" where
  "findMatchingSymbol b s baseSymbol =
     (if \<not> has_token s then (None, s)
      else case getSymbols b s of
             (Returned allSymbols, s1) \<Rightarrow> (match_symbol baseSymbol allSymbols, s1)
           | (Threw e, s1) \<Rightarrow> (None, s1))"

text \<open>
  The opening of \<open>sendOrder\<close> and \<open>getQuote\<close>: the matching symbol, when there is one and it
  is not the empty string, replaces the requested one and is subscribed to.
\<close>

definition resolve_and_subscribe :: "bridge \<Rightarrow> adapter \<Rightarrow> string \<Rightarrow> string \<times> adapter" where
  "resolve_and_subscribe b s symbolName =
     (case findMatchingSymbol b s symbolName of
        (Some matchingSymbol, s1) \<Rightarrow>
          if matchingSymbol \<noteq> [] then (matchingSymbol, snd (subscribeSymbol b s1 matchingSymbol))
          else (symbolName, s1)
      | (None, s1) \<Rightarrow> (symbolName, s1))"

section \<open>Sending an order\<close>

record OrderRequest =
  o_symbol :: string
  o_action :: string
  o_volume :: real
  o_price :: "real option"
  o_sl :: "real option"
  o_tp :: "real option"
  o_comment :: "string option"

text \<open>\<open>if (x && x > 0) params.k = x\<close>.\<close>

definition optional_positive :: "string \<Rightarrow> real option \<Rightarrow> (string \<times> json) list" where
  "optional_positive k x =
     (case x of Some v \<Rightarrow> if v \<noteq> 0 \<and> 0 < v then [(k, JNum v)] else [] | None \<Rightarrow> [])"

definition order_params :: "adapter \<Rightarrow> string \<Rightarrow> OrderRequest \<Rightarrow> (string \<times> json) list" where
  "order_params s actualSymbol orderRequest =
     [(''id'', token_param s),
      (''symbol'', JStr actualSymbol),
      (''operation'', JStr (if o_action orderRequest = ''BUY'' then ''Buy'' else ''Sell'')),
      (''volume'', JNum (o_volume orderRequest)),
      (''slippage'', JNum 10),
      (''expertID'', JNum 0)]
     @ optional_positive ''price'' (o_price orderRequest)
     @ optional_positive ''stoploss'' (o_sl orderRequest)
     @ optional_positive ''takeprofit'' (o_tp orderRequest)
     @ (case o_comment orderRequest of
          Some c \<Rightarrow> if c \<noteq> [] then [(''comment'', JStr c)] else []
        | None \<Rightarrow> [])"

definition order_failure :: "string \<Rightarrow> order_result" where
  "order_failure m = \<lparr>retcode = 10004, order = None, comment = JStr m, orderData = None\<rparr>"

definition sendOrder_catch :: "exn \<Rightarrow> adapter \<Rightarrow> order_result \<times> adapter" where
  "sendOrder_catch e s =
     (order_failure (message_or e ''Failed to send order''),
      if is_auth_error e then clearToken s else s)"

definition sendOrder :: "bridge \<Rightarrow> adapter \<Rightarrow> OrderRequest \<Rightarrow> order_result \<times> adapter" where
  "sendOrder b s orderRequest =
     (if \<not> has_token s then (order_failure ''Not connected to MT5'', s)
      else case resolve_and_subscribe b s (o_symbol orderRequest) of
             (actualSymbol, s1) \<Rightarrow>
               (case http_get b s1 ''/OrderSend'' (order_params s1 actualSymbol orderRequest) of
                  (Resolved st d, s2) \<Rightarrow>
                    if st = 200 \<or> st = 201 then
                      (case parseOrderResponse d ''OrderSend'' of
                         Some result \<Rightarrow> (result, s2)
                       | None \<Rightarrow> sendOrder_catch
                                   (TypeError ''Cannot convert object to primitive value'') s2)
                    else (order_failure (''Order failed with HTTP status: '' @ show_nat st), s2)
                | (Rejected e, s2) \<Rightarrow> sendOrder_catch e s2))"

section \<open>Quotes, account information, liveness\<close>

record Quote =
  bid :: real
  ask :: real
  qtime :: json

text \<open>\<open>now\<close> is \<open>new Date().toISOString()\<close> at the moment of the call.\<close>

definition getQuote :: "string \<Rightarrow> bridge \<Rightarrow> adapter \<Rightarrow> string \<Rightarrow> Quote option outcome \<times> adapter" where
  "getQuote now b s symbolName =
     (if \<not> has_token s then (Returned None, s)
      else case resolve_and_subscribe b s symbolName of
             (actualSymbol, s1) \<Rightarrow>
               (case http_get b s1 ''/GetQuote''
                       [(''id'', token_param s1), (''symbol'', JStr actualSymbol), (''msNotOlder'', JNum 0)] of
                  (Resolved st quote, s2) \<Rightarrow>
                    if (st = 200 \<or> st = 201) \<and> truthy quote then
                      (case (field quote ''bid'', field quote ''ask'') of
                         (JNum bd, JNum ak) \<Rightarrow>
                           (Returned (Some \<lparr>bid = bd, ask = ak,
                                             qtime = js_or (field quote ''time'') (JStr now)\<rparr>), s2)
                       | _ \<Rightarrow> (Returned None, s2))
                    else (Returned None, s2)
                | (Rejected e, s2) \<Rightarrow>
                    (Threw (Error (message_or e ''Failed to retrieve quote'')),
                     if is_auth_error e then clearToken s2 else s2)))"

text \<open>
  The object literal \<open>accountInfo\<close>.  \<open>detailsData?.Login?.toString()\<close> throws a TypeError when
  \<open>Login\<close> is an object whose own property \<open>toString\<close> hides the method.
\<close>

definition account_info :: "json \<Rightarrow> json \<Rightarrow> json option" where
  "account_info summaryData detailsData =
     (let details = (\<lambda>k. if detailsData = JNull \<or> detailsData = JUndefined then JUndefined
                          else field detailsData k);
          login = details ''Login''
      in case (if login = JNull \<or> login = JUndefined then Some JUndefined
               else map_option JStr (js_toString login)) of
           None \<Rightarrow> None
         | Some shown \<Rightarrow>
             Some (JObj
               [(''balance'', js_or (field summaryData ''balance'') (JNum 0)),
                (''equity'', js_or (field summaryData ''equity'') (JNum 0)),
                (''margin'', js_or (field summaryData ''margin'') (JNum 0)),
                (''freeMargin'', js_or (field summaryData ''freeMargin'') (JNum 0)),
                (''marginLevel'', js_or (field summaryData ''marginLevel'') (JNum 0)),
                (''currency'', js_or (field summaryData ''currency'') (JStr ''USD'')),
                (''profit'', js_or (field summaryData ''profit'') (JNum 0)),
                (''credit'', js_or (field summaryData ''credit'') (JNum 0)),
                (''accountNumber'', js_or shown (JStr [])),
                (''accountName'', js_or (details ''Name'') (JStr [])),
                (''serverName'', js_or (details ''Server'') (JStr [])),
                (''leverage'', js_or (details ''Leverage'') (JNum 1))]))"

definition getAccountInfo_catch :: "exn \<Rightarrow> adapter \<Rightarrow> json outcome \<times> adapter" where
  "getAccountInfo_catch e s =
     (if is_auth_error e then (Threw (Error ''Session expired. Please login again.''), clearToken s)
      else (Threw (Error (message_or e ''Failed to retrieve account information'')), s))"

text \<open>
  Both requests of the \<open>Promise.all\<close> are issued, \<open>AccountSummary\<close> first; a rejected
  \<open>AccountDetails\<close> is replaced by \<open>{ status: 404, data: null }\<close>.
\<close>

definition getAccountInfo :: "bridge \<Rightarrow> adapter \<Rightarrow> json outcome \<times> adapter" where
  "getAccountInfo b s =
     (if \<not> has_token s then (Returned JNull, s)
      else case http_get b s ''/AccountSummary'' [(''id'', token_param s)] of
             (summaryResponse, s1) \<Rightarrow>
               (case http_get b s1 ''/AccountDetails'' [(''id'', token_param s)] of
                  (detailsResponse, s2) \<Rightarrow>
                    (case summaryResponse of
                       Rejected e \<Rightarrow> getAccountInfo_catch e s2
                     | Resolved st summaryData \<Rightarrow>
                         if (st = 200 \<or> st = 201) \<and> truthy summaryData then
                           (case account_info summaryData
                                   (case detailsResponse of
                                      Resolved st2 d2 \<Rightarrow> if st2 = 200 \<or> st2 = 201 then d2 else JObj []
                                    | Rejected e2 \<Rightarrow> JObj []) of
                              Some accountInfo \<Rightarrow> (Returned accountInfo, s2)
                            | None \<Rightarrow> getAccountInfo_catch
                                        (TypeError ''detailsData?.Login?.toString is not a function'') s2)
                         else (Returned JNull, s2))))"

definition checkConnection :: "bridge \<Rightarrow> adapter \<Rightarrow> bool \<times> adapter" where
  "checkConnection b s =
     (if \<not> has_token s then (False, s)
      else case http_get b s ''/CheckConnect'' [(''id'', token_param s)] of
             (Resolved st d, s1) \<Rightarrow> (st = 200 \<or> st = 201, s1)
           | (Rejected e, s1) \<Rightarrow> (False, s1))"

section \<open>Construction, connect and disconnect\<close>

text \<open>
  The constructor: \<open>url\<close> and \<open>key\<close> are the two environment variables, \<open>persisted\<close> the entry
  of \<open>localStorage\<close> it finds.  \<open>if (storedToken)\<close> leaves the token \<open>null\<close> for an empty string.
\<close>

definition new_adapter :: "string option \<Rightarrow> string option \<Rightarrow> string option \<Rightarrow> adapter" where
  "new_adapter url key persisted =
     (let s = axios_create
                \<lparr>apiClient = \<lparr>client_baseURL = [], client_timeout = 0, client_headers = [],
                              client_serial = 0\<rparr>,
                 token = None,
                 baseURL = (case url of Some u \<Rightarrow> if u \<noteq> [] then u else ''https://mt5full2.mtapi.io''
                                      | None \<Rightarrow> ''https://mt5full2.mtapi.io''),
                 apiKey = (case key of Some k \<Rightarrow> k | None \<Rightarrow> []),
                 stored = persisted, log = [], clients_created = 0\<rparr>
      in case getStoredToken s of
           Some storedToken \<Rightarrow> if storedToken \<noteq> [] then s\<lparr>token := Some storedToken\<rparr> else s
         | None \<Rightarrow> s)"

definition setApiEndpoint :: "string \<Rightarrow> adapter \<Rightarrow> adapter" where
  "setApiEndpoint endpoint s =
     (let u = (if ends_with endpoint ''/'' then take (length endpoint - 1) endpoint else endpoint)
      in s\<lparr>baseURL := u, apiClient := (apiClient s)\<lparr>client_baseURL := u\<rparr>\<rparr>)"

text \<open>
  \<open>disconnect\<close>: the token is cleared and the client recreated after the \<open>Disconnect\<close> request
  has resolved, or at once when no token is held; when the request throws, the \<open>catch\<close>
  block returns \<open>false\<close>.
\<close>

definition disconnect :: "bridge \<Rightarrow> adapter \<Rightarrow> bool \<times> adapter" where
  "disconnect b s =
     (if has_token s then
        case http_get b s ''/Disconnect'' [(''id'', token_param s)] of
          (Resolved st d, s1) \<Rightarrow> (True, axios_create (clearToken s1))
        | (Rejected e, s1) \<Rightarrow> (False, s1)
      else (True, axios_create (clearToken s)))"

record ConnectionCredentials =
  accountNumber :: string
  password :: string
  serverName :: string

record ConnectionResponse =
  success :: bool
  ctoken :: "string option"
  cmessage :: json

text \<open>\<open>v.includes(p)\<close> as a method call on any value; \<open>None\<close> is a TypeError.\<close>

definition method_includes :: "json \<Rightarrow> string \<Rightarrow> bool option" where
  "method_includes v p =
     (case v of
        JStr x \<Rightarrow> Some (str_includes x p)
      | JArr xs \<Rightarrow> Some (JStr p \<in> set xs)
      | _ \<Rightarrow> None)"

definition connect_errors :: "(string \<times> string) list" where
  "connect_errors =
     [(''INVALID_ACCOUNT'',
       ''Invalid account credentials. Please verify your account number, password, and server are correct.''),
      (''INVALID_PASSWORD'', ''Incorrect password. Please check your MT5 account password.''),
      (''INVALID_SERVER'', ''Invalid server. Please select the correct server for your broker.''),
      (''ACCOUNT_DISABLED'', ''Account is disabled. Please contact your broker to activate your account.''),
      (''CONNECTION_FAILED'',
       ''Failed to connect to broker server. Please check your internet connection and try again.'')]"

text \<open>
  The chain \<open>if (errorCode === k || errorMessage.includes(k)) ... else if ...\<close>, with
  \<open>errorMessage\<close> the message when no link applies.
\<close>

fun friendly_message :: "json \<Rightarrow> json \<Rightarrow> (string \<times> string) list \<Rightarrow> json option" where
  "friendly_message errorCode errorMessage [] = Some errorMessage"
| "friendly_message errorCode errorMessage ((k, text) # rest) =
     (if errorCode = JStr k then Some (JStr text)
      else case method_includes errorMessage k of
             None \<Rightarrow> None
           | Some True \<Rightarrow> Some (JStr text)
           | Some False \<Rightarrow> friendly_message errorCode errorMessage rest)"

definition connected :: "string \<Rightarrow> json \<Rightarrow> ConnectionResponse" where
  "connected t m = \<lparr>success = True, ctoken = Some t, cmessage = js_or m (JStr ''Connected successfully'')\<rparr>"

definition refused :: "json \<Rightarrow> ConnectionResponse" where
  "refused m = \<lparr>success = False, ctoken = None, cmessage = m\<rparr>"

definition unexpected_format :: ConnectionResponse where
  "unexpected_format = refused (JStr ''Unexpected response format from MT5 API. Please try again.'')"

definition has_own :: "string \<Rightarrow> json \<Rightarrow> bool" where
  "has_own k v = (js_in k v = Some True)"

text \<open>A string of more than ten characters in field \<open>k\<close>.\<close>

definition long_string_field :: "json \<Rightarrow> string \<Rightarrow> string option" where
  "long_string_field rd k =
     (if has_own k rd then
        (case field rd k of JStr t \<Rightarrow> if 10 < length t then Some t else None | _ \<Rightarrow> None)
      else None)"

text \<open>Case 1 of \<open>connect\<close>, a non-null object; a response that matches no test falls through.\<close>

definition connect_object :: "json \<Rightarrow> ConnectionResponse option" where
  "connect_object rd =
     (case (case long_string_field rd ''token'' of
              Some t \<Rightarrow> if \<not> str_includes t ''INVALID'' \<and> \<not> str_includes t ''ERROR'' then Some t else None
            | None \<Rightarrow> None) of
        Some t \<Rightarrow> Some (connected t (field rd ''message''))
      | None \<Rightarrow>
          if has_own ''error'' rd \<or> has_own ''code'' rd
             \<or> (has_own ''message'' rd \<and> typeof (field rd ''message'') = ''string'') then
            map_option refused
              (friendly_message (js_or (field rd ''code'') (JStr ''UNKNOWN_ERROR''))
                 (js_or (js_or (field rd ''error'') (field rd ''message'')) (JStr ''Unknown error''))
                 connect_errors)
          else if has_own ''success'' rd \<and> field rd ''success'' = JBool True then
            (case List.map_filter (long_string_field rd) [''id'', ''sessionId'', ''connectionId'', ''accessToken''] of
               t # ts \<Rightarrow> Some (connected t (field rd ''message''))
             | [] \<Rightarrow> Some unexpected_format)
          else Some unexpected_format)"

text \<open>Case 2, a string.\<close>

definition connect_string :: "string \<Rightarrow> ConnectionResponse" where
  "connect_string responseData =
     (let lowerResponse = toLowerCase responseData
      in if str_includes lowerResponse ''invalid'' \<or> str_includes lowerResponse ''error''
            \<or> str_includes lowerResponse ''failed'' \<or> str_includes lowerResponse ''denied'' then
           refused (JStr
             (if str_includes lowerResponse ''invalid_account'' \<or> str_includes lowerResponse ''invalid account''
              then ''Invalid account credentials. Please verify your account number, password, and server are correct.''
              else if str_includes lowerResponse ''invalid_password'' \<or> str_includes lowerResponse ''invalid password''
              then ''Incorrect password. Please check your MT5 account password.''
              else if str_includes lowerResponse ''invalid_server'' \<or> str_includes lowerResponse ''invalid server''
              then ''Invalid server. Please select the correct server for your broker.''
              else responseData))
         else if 10 < length responseData \<and> \<not> str_includes lowerResponse ''invalid''
                 \<and> \<not> str_includes lowerResponse ''error'' then
           connected responseData JUndefined
         else unexpected_format)"

definition connect_response :: "nat \<Rightarrow> json \<Rightarrow> ConnectionResponse option" where
  "connect_response st responseData =
     (if st = 200 \<or> st = 201 then
        (case responseData of
           JObj kvs \<Rightarrow> connect_object responseData
         | JArr xs \<Rightarrow> connect_object responseData
         | JStr text \<Rightarrow> Some (connect_string text)
         | JNum x \<Rightarrow> Some (if 0 < x then connected (number_toString x) JUndefined else unexpected_format)
         | _ \<Rightarrow> Some unexpected_format)
      else Some (refused (JStr (''Connection failed with HTTP status: '' @ show_nat st))))"

definition connect_catch :: "exn \<Rightarrow> ConnectionResponse" where
  "connect_catch e =
     refused (JStr
       (if exn_code e = Some ''ECONNREFUSED''
        then ''Cannot connect to MT5 API server. Please check your internet connection and try again.''
        else if exn_code e = Some ''ETIMEDOUT''
        then ''Connection timeout. Please check your internet connection and try again.''
        else if exn_status e = Some 404
        then ''MT5 API endpoint not found. Please contact support.''
        else message_or e ''Connection failed''))"

text \<open>
  \<open>connect\<close>.  The branches that return success are those that store the token, in memory
  and in \<open>localStorage\<close>; \<open>user\<close> is \<open>parseInt(accountNumber)\<close>, the text \<open>NaN\<close> when it is no number.
\<close>

definition connect :: "bridge \<Rightarrow> adapter \<Rightarrow> ConnectionCredentials \<Rightarrow> ConnectionResponse \<times> adapter" where
  "connect b s credentials =
     (case http_get b s ''/ConnectEx''
             [(''user'', (case js_parseInt True (accountNumber credentials) of
                            Some n \<Rightarrow> JNum (real_of_int n) | None \<Rightarrow> JStr ''NaN'')),
              (''password'', JStr (password credentials)),
              (''server'', JStr (serverName credentials))] of
        (Resolved st d, s1) \<Rightarrow>
          (case connect_response st d of
             Some r \<Rightarrow> (r, case ctoken r of Some t \<Rightarrow> setToken t s1 | None \<Rightarrow> s1)
           | None \<Rightarrow> (connect_catch (TypeError ''errorMessage.includes is not a function''), s1))
      | (Rejected e, s1) \<Rightarrow> (connect_catch e, s1))"

section \<open>The class-based service: executing a trade\<close>

text \<open>
  \<open>executeTrade\<close> of the class \<open>MT5ApiService\<close> in \<open>mt5ApiService.ts\<close>, which holds a token and
  sends its requests with the module \<open>axios\<close>.
\<close>

record service =
  svc_token :: "string option"
  svc_calls :: "request list"

record trade_result =
  tr_success :: bool
  tr_ticket :: "json option"
  tr_message :: string

text \<open>\<open>if (x) params.k = x\<close>.\<close>

definition optional_truthy :: "string \<Rightarrow> real option \<Rightarrow> (string \<times> json) list" where
  "optional_truthy k x = (case x of Some v \<Rightarrow> if v \<noteq> 0 then [(k, JNum v)] else [] | None \<Rightarrow> [])"

definition trade_params ::
  "string \<Rightarrow> string \<Rightarrow> string \<Rightarrow> real \<Rightarrow> real option \<Rightarrow> real option \<Rightarrow> real option \<Rightarrow> string option
     \<Rightarrow> (string \<times> json) list" where
  "trade_params tok symbolName side vol price stopLoss takeProfit cmt =
     [(''id'', JStr tok),
      (''symbol'', JStr symbolName),
      (''volume'', JNum vol),
      (''type'', JStr (if side = ''BUY'' then ''ORDER_TYPE_BUY'' else ''ORDER_TYPE_SELL'')),
      (''price'', JNum (case price of Some v \<Rightarrow> v | None \<Rightarrow> 0)),
      (''slippage'', JNum 10)]
     @ optional_truthy ''sl'' stopLoss
     @ optional_truthy ''tp'' takeProfit
     @ (case cmt of Some c \<Rightarrow> if c \<noteq> [] then [(''comment'', JStr c)] else [] | None \<Rightarrow> [])"

definition trade_failure :: "string \<Rightarrow> trade_result" where
  "trade_failure m = \<lparr>tr_success = False, tr_ticket = None, tr_message = m\<rparr>"

definition executeTrade_catch :: "exn \<Rightarrow> trade_result" where
  "executeTrade_catch e =
     (case e of
        AxiosError m c r \<Rightarrow>
          if map_option fst r = Some 401
          then trade_failure ''Authentication failed. MT5 session may have expired. Please reconnect.''
          else trade_failure m
      | _ \<Rightarrow> trade_failure (exn_message e))"

definition executeTrade ::
  "bridge \<Rightarrow> service \<Rightarrow> string \<Rightarrow> string \<Rightarrow> real \<Rightarrow> real option \<Rightarrow> real option \<Rightarrow> real option
     \<Rightarrow> string option \<Rightarrow> trade_result \<times> service" where
  "executeTrade b s symbolName side vol price stopLoss takeProfit cmt =
     (case svc_token s of
        None \<Rightarrow> (trade_failure ''Not connected to MT5'', s)
      | Some tok \<Rightarrow>
          if tok = [] then (trade_failure ''Not connected to MT5'', s)
          else
            (let r = Request ''GET'' ''/OrderSend''
                       (trade_params tok symbolName side vol price stopLoss takeProfit cmt);
                 s1 = s\<lparr>svc_calls := svc_calls s @ [r]\<rparr>
             in case b (svc_calls s) r of
                  Rejected e \<Rightarrow> (executeTrade_catch e, s1)
                | Resolved st d \<Rightarrow>
                    (case (if truthy d then js_gt0 d else Some False) of
                       None \<Rightarrow> (executeTrade_catch
                                   (TypeError ''Cannot convert object to primitive value''), s1)
                     | Some True \<Rightarrow>
                         (\<lparr>tr_success = True, tr_ticket = Some d,
                           tr_message = side @ '' order executed successfully''\<rparr>, s1)
                     | Some False \<Rightarrow>
                         (case js_toString d of
                            None \<Rightarrow> (executeTrade_catch
                                        (TypeError ''Cannot convert object to primitive value''), s1)
                          | Some shown \<Rightarrow>
                              (trade_failure (''Failed to execute '' @ side @ '' order: '' @ shown), s1)))))"

section \<open>The module-level services: closing a position\<close>

text \<open>
  The two object-literal services (\<open>mt5ApiService.ts\<close> after the class, and the older copy)
  keep the token in the module variable \<open>mt5Token\<close>.  Their \<open>closePosition\<close> differ in the
  request only: a \<open>GET\<close> with a query string, or a \<open>POST\<close> with a body.
\<close>

record module_state =
  mt5Token :: "string option"
  calls :: "request list"

record close_outcome =
  co_success :: bool
  co_message :: json
  co_retcode :: real
  co_profit :: json
  co_format :: "string option"

definition connected_module :: "module_state \<Rightarrow> bool" where
  "connected_module s = (case mt5Token s of Some t \<Rightarrow> t \<noteq> [] | None \<Rightarrow> False)"

text \<open>The callback of \<open>response.data.map\<close>; \<open>None\<close> is the TypeError of reading a property of \<open>null\<close>.\<close>

definition module_position :: "json \<Rightarrow> json option" where
  "module_position pos =
     (if pos = JNull \<or> pos = JUndefined then None
      else Some (JObj
        [(''ticket'', field pos ''ticket''),
         (''symbol'', field pos ''symbol''),
         (''type'', JStr (if field pos ''type'' = JNum 0 then ''Buy'' else ''Sell'')),
         (''volume'', field pos ''volume''),
         (''rawVolume'', field pos ''volume''),
         (''openPrice'', field pos ''openPrice''),
         (''currentPrice'', field pos ''currentPrice''),
         (''profit'', field pos ''profit''),
         (''swap'', field pos ''swap''),
         (''commission'', js_or (field pos ''commission'') (JNum 0)),
         (''openTime'', field pos ''openTime''),
         (''comment'', js_or (field pos ''comment'') (JStr []))]))"

fun map_positions :: "json list \<Rightarrow> json list option" where
  "map_positions [] = Some []"
| "map_positions (x # xs) =
     (case module_position x of
        None \<Rightarrow> None
      | Some p \<Rightarrow> map_option ((#) p) (map_positions xs))"

definition module_getPositions_catch :: "exn \<Rightarrow> exn" where
  "module_getPositions_catch e =
     (case e of
        AxiosError m c (Some (st, d)) \<Rightarrow>
          if st = 401
             \<or> (case d of
                   JStr text \<Rightarrow> text \<noteq> [] \<and> (str_includes text ''Authentication failed''
                                              \<or> str_includes text ''Session expired'')
                 | _ \<Rightarrow> False)
          then Error ''Authentication failed. Please reconnect your MT5 account.''
          else e
      | _ \<Rightarrow> e)"

definition module_getPositions :: "bridge \<Rightarrow> module_state \<Rightarrow> json list outcome \<times> module_state" where
  "module_getPositions b s =
     (case mt5Token s of
        None \<Rightarrow> (Threw (Error ''Not connected to MT5 API''), s)
      | Some tok \<Rightarrow>
          if tok = [] then (Threw (Error ''Not connected to MT5 API''), s)
          else
            (let r = Request ''GET'' ''/Positions'' [(''id'', JStr tok)];
                 s1 = s\<lparr>calls := calls s @ [r]\<rparr>
             in case b (calls s) r of
                  Rejected e \<Rightarrow> (Threw (module_getPositions_catch e), s1)
                | Resolved st d \<Rightarrow>
                    (case d of
                       JArr xs \<Rightarrow>
                         (case map_positions xs of
                            Some positions \<Rightarrow> (Returned positions, s1)
                          | None \<Rightarrow> (Threw (TypeError ''Cannot read properties of null''), s1))
                     | _ \<Rightarrow> (Threw (TypeError ''response.data.map is not a function''), s1))))"

text \<open>The profit captured before closing: the inner \<open>try\<close> of \<open>closePosition\<close>.\<close>

definition captured_profit :: "json list outcome \<Rightarrow> real \<Rightarrow> json" where
  "captured_profit r t =
     (case r of
        Returned positions \<Rightarrow>
          (case find (\<lambda>p. field p ''ticket'' = JNum t) positions of
             Some position \<Rightarrow> field position ''profit''
           | None \<Rightarrow> JNum 0)
      | Threw e \<Rightarrow> JNum 0)"

definition get_close_request :: "string \<Rightarrow> real \<Rightarrow> real option \<Rightarrow> request" where
  "get_close_request tok t vol =
     Request ''GET'' ''/OrderClose''
       ([(''id'', JStr tok), (''ticket'', JStr (number_toString t))]
        @ (case vol of Some v \<Rightarrow> if v \<noteq> 0 then [(''lots'', JStr (number_toString v))] else []
                     | None \<Rightarrow> []))"

definition post_close_request :: "string \<Rightarrow> real \<Rightarrow> real option \<Rightarrow> request" where
  "post_close_request tok t vol =
     Request ''POST'' ''/OrderClose''
       ([(''id'', JStr tok), (''ticket'', JNum t)]
        @ (case vol of Some v \<Rightarrow> if v \<noteq> 0 then [(''lots'', JNum v)] else [] | None \<Rightarrow> []))"

definition close_failure :: "json \<Rightarrow> close_outcome" where
  "close_failure m =
     \<lparr>co_success = False, co_message = m, co_retcode = 10004, co_profit = JNum 0, co_format = None\<rparr>"

text \<open>The outer \<open>catch\<close> block.\<close>

definition module_close_catch :: "real \<Rightarrow> exn \<Rightarrow> close_outcome" where
  "module_close_catch t e =
     (case e of
        AxiosError m c (Some (st, errorMessage)) \<Rightarrow>
          (case errorMessage of
             JStr text \<Rightarrow>
               if str_includes text ''position not found'' \<or> str_includes text ''already closed''
                  \<or> str_includes text ''POSITION_NOT_EXISTS'' then
                 \<lparr>co_success = True,
                  co_message = JStr (''Position '' @ number_toString t @ '' was already closed''),
                  co_retcode = 10009, co_profit = JNum 0, co_format = None\<rparr>
               else close_failure errorMessage
           | _ \<Rightarrow> close_failure errorMessage)
      | _ \<Rightarrow> close_failure (JStr (message_or e ''Unknown error'')))"

text \<open>
  After the request has resolved: the profit of the body, if it has one, is written to the
  log in a template literal before the success outcome is built.
\<close>

definition module_close_resolved :: "real \<Rightarrow> real option \<Rightarrow> json \<Rightarrow> json \<Rightarrow> close_outcome" where
  "module_close_resolved t vol positionProfit d =
     (let hasProfit = (truthy d \<and> typeof d = ''object'' \<and> field d ''profit'' \<noteq> JUndefined);
          responseProfit = (if hasProfit then field d ''profit'' else JNum 0)
      in case (if hasProfit then js_toString responseProfit else Some []) of
           None \<Rightarrow> module_close_catch t (TypeError ''Cannot convert object to primitive value'')
         | Some logged \<Rightarrow>
             \<lparr>co_success = True,
              co_message = JStr (''Position '' @ number_toString t @ '' closed successfully''),
              co_retcode = 10009,
              co_profit = (if responseProfit \<noteq> JNum 0 then responseProfit else positionProfit),
              co_format = Some (if (case vol of Some v \<Rightarrow> v \<noteq> 0 | None \<Rightarrow> False)
                                then ''with specified volume'' else ''with auto volume'')\<rparr>)"

text \<open>The answer of the bridge to the \<open>OrderClose\<close> request of a call made with a token.\<close>

definition module_close_answer ::
  "(string \<Rightarrow> real \<Rightarrow> real option \<Rightarrow> request) \<Rightarrow> bridge \<Rightarrow> module_state \<Rightarrow> real \<Rightarrow> real option
     \<Rightarrow> http_result" where
  "module_close_answer mk b s t vol =
     b (calls (snd (module_getPositions b s)))
       (mk (case mt5Token s of Some tok \<Rightarrow> tok | None \<Rightarrow> []) t vol)"

definition module_closePosition ::
  "(string \<Rightarrow> real \<Rightarrow> real option \<Rightarrow> request) \<Rightarrow> bridge \<Rightarrow> module_state \<Rightarrow> real \<Rightarrow> real option
     \<Rightarrow> close_outcome \<times> module_state" where
  "module_closePosition mk b s t vol =
     (if \<not> connected_module s then (module_close_catch t (Error ''Not connected to MT5 API''), s)
      else case module_getPositions b s of
             (found, s1) \<Rightarrow>
               (let r = mk (case mt5Token s of Some tok \<Rightarrow> tok | None \<Rightarrow> []) t vol;
                    s2 = s1\<lparr>calls := calls s1 @ [r]\<rparr>
                in case b (calls s1) r of
                     Resolved st d \<Rightarrow> (module_close_resolved t vol (captured_profit found t) d, s2)
                   | Rejected e \<Rightarrow> (module_close_catch t e, s2)))"

text \<open>\<open>closePosition\<close> of \<open>mt5ApiService.ts\<close> and of the older copy.\<close>

definition closePosition_get :: "bridge \<Rightarrow> module_state \<Rightarrow> real \<Rightarrow> real option \<Rightarrow> close_outcome \<times> module_state" where
  "closePosition_get = module_closePosition get_close_request"

definition closePosition_post :: "bridge \<Rightarrow> module_state \<Rightarrow> real \<Rightarrow> real option \<Rightarrow> close_outcome \<times> module_state" where
  "closePosition_post = module_closePosition post_close_request"

text \<open>A body the success path can write to its log: no profit, or one that has a string.\<close>

definition profit_loggable :: "json \<Rightarrow> bool" where
  "profit_loggable d =
     (if truthy d \<and> typeof d = ''object'' \<and> field d ''profit'' \<noteq> JUndefined
      then js_toString (field d ''profit'') \<noteq> None else True)"

text \<open>
  The invariant of the class: the token in memory and the persisted one are the same, or
  the constructor met a persisted empty string and left the token \<open>null\<close>.
\<close>

definition tokens_agree :: "adapter \<Rightarrow> bool" where
  "tokens_agree s = (token s = stored s \<or> (token s = None \<and> stored s = Some []))"

text \<open>What a method may do to the two tokens: leave both, or make them equal.\<close>

definition token_step :: "adapter \<Rightarrow> adapter \<Rightarrow> bool" where
  "token_step s s' = ((token s' = token s \<and> stored s' = stored s) \<or> token s' = stored s')"

text \<open>
  The course of a probe, for stating its properties: the request of a candidate, the log
  before attempt \<open>j\<close> when every earlier attempt went on to the next candidate, and what
  attempt \<open>j\<close> then does with the bridge's answer.
\<close>

definition close_request :: "adapter \<Rightarrow> real \<Rightarrow> VolumeFormatEntry \<Rightarrow> request" where
  "close_request s t format = Request ''GET'' ''/OrderClose'' (close_params s t format)"



definition close_requests :: "request list \<Rightarrow> request list" where
  "close_requests lg = filter (\<lambda>r. req_path r = ''/OrderClose'') lg"



section \<open>Example sessions and bridges\<close>

text \<open>A connected adapter holding the token \<open>tok\<close>, in memory and persisted.\<close>

definition session0 :: adapter where
  "session0 =
     \<lparr>apiClient = \<lparr>client_baseURL = ''https://mt5full2.mtapi.io'', client_timeout = 30000,
                   client_headers = [(''Content-Type'', ''application/json''), (''ApiKey'', ''key'')],
                   client_serial = 0\<rparr>,
      token = Some ''tok'', baseURL = ''https://mt5full2.mtapi.io'', apiKey = ''key'',
      stored = Some ''tok'', log = [], clients_created = 1\<rparr>"

text \<open>One open position: ticket 1, 0.1 lots.\<close>

definition position1 :: json where
  "position1 = JObj [(''ticket'', JNum 1), (''orderType'', JStr ''Buy''), (''lots'', JNum (1 / 10))]"

definition unauthorized :: exn where
  "unauthorized =
     AxiosError ''Request failed with status code 401'' (Some ''ERR_BAD_REQUEST'') (Some (401, JNull))"

text \<open>
  A bridge that lists the position and answers every other request with status 401, which
  the HTTP client turns into a rejection.
\<close>

definition bridge_close_401 :: bridge where
  "bridge_close_401 lg r =
     (if req_path r = ''/OpenedOrders'' then Resolved 200 (JArr [position1])
      else Rejected unauthorized)"

text \<open>A bridge that lists the position and accepts every close with the order number 5.\<close>

definition bridge_accepts :: bridge where
  "bridge_accepts lg r =
     (if req_path r = ''/OpenedOrders'' then Resolved 200 (JArr [position1])
      else Resolved 200 (JNum 5))"

text \<open>A bridge that cannot be reached: every request fails in the network.\<close>

definition bridge_down :: bridge where
  "bridge_down lg r = Rejected (AxiosError ''Network Error'' (Some ''ERR_NETWORK'') None)"

text \<open>A bridge that answers a close with a profit that has no string.\<close>

definition bridge_odd_profit :: bridge where
  "bridge_odd_profit lg r =
     (if req_path r = ''/OrderClose'' then Resolved 200 (JObj [(''profit'', JObj [(''toString'', JNum 0)])])
      else Resolved 200 (JArr []))"


text \<open>The module-level service with and without a token.\<close>

definition module_session :: module_state where
  "module_session = \<lparr>mt5Token = Some ''tok'', calls = []\<rparr>"

definition module_offline :: module_state where
  "module_offline = \<lparr>mt5Token = None, calls = []\<rparr>"

text \<open>A market order without a price, with a stop loss of zero and a take profit.\<close>

definition order0 :: OrderRequest where
  "order0 = \<lparr>o_symbol = ''EURUSD'', o_action = ''BUY'', o_volume = 1 / 100, o_price = None,
              o_sl = Some 0, o_tp = Some (11 / 10), o_comment = None\<rparr>"



section \<open>Properties of the response parser\<close>

text \<open>
  A property name that is not a run of digits is no index of an array, so an array body
  has none of the members the parser asks for and is classified by the default rule.
\<close>

lemma digit_char_is_digit: "d < 10 \<Longrightarrow> is_digit (digit_char d)"
  by (simp add: is_digit_def digit_char_def)

lemma show_nat_digits: "list_all is_digit (show_nat n)"
proof (induction n rule: show_nat.induct)
  case (1 n)
  show ?case
  proof (cases "n < 10")
    case True
    then show ?thesis by (subst show_nat.simps) (simp add: digit_char_is_digit)
  next
    case False
    then have "list_all is_digit (show_nat (n div 10))" using 1 by simp
    moreover have "is_digit (digit_char (n mod 10))" by (simp add: digit_char_is_digit)
    ultimately show ?thesis using False by (subst show_nat.simps) simp
  qed
qed

lemma not_index:
  assumes "\<not> list_all is_digit k"
  shows "show_nat i \<noteq> k"
  using assms show_nat_digits[of i] by auto

lemma array_own_name:
  assumes "\<not> list_all is_digit k" and "k \<noteq> ''length''"
  shows "array_own k xs = False"
  using assms not_index by (auto simp: array_own_def)

lemma array_get_name:
  assumes "\<not> list_all is_digit k" and "k \<noteq> ''length''"
  shows "array_get xs k = JUndefined"
proof -
  have "find (\<lambda>i. show_nat i = k) [0..<length xs] = None"
    using assms not_index by (auto simp: find_None_iff)
  then show ?thesis using assms by (simp add: array_get_def)
qed

lemma array_own_fields:
  "array_own ''ticket'' xs = False" "array_own ''retcode'' xs = False"
  "array_own ''success'' xs = False" "array_own ''error'' xs = False"
  "array_own ''Error'' xs = False" "array_own ''message'' xs = False"
  "array_own ''order'' xs = False"
  by (rule array_own_name; simp add: is_digit_def)+

lemma array_get_fields:
  "array_get xs ''order'' = JUndefined" "array_get xs ''ticket'' = JUndefined"
  "array_get xs ''message'' = JUndefined" "array_get xs ''comment'' = JUndefined"
  by (rule array_get_name; simp add: is_digit_def)+

lemma parse_array: "\<exists>r. parseOrderResponse (JArr xs) operation = Some r \<and> is_success r"
  by (simp add: parseOrderResponse_def parse_object_def parse_message_def parse_order_or_default_def
        array_own_fields array_get_fields is_success_def js_gt0_def)


text \<open>
  On a plain object body every coercion of the parser has a value, so the parser returns;
  it returns on every body that is not an object as well.
\<close>

lemma to_number_plain: "js_toString v \<noteq> None \<Longrightarrow> to_number v \<noteq> None"
  by (cases v) auto

lemma plain_field:
  assumes "plain kvs"
  shows "js_toString (case map_of kvs k of Some v \<Rightarrow> v | None \<Rightarrow> JUndefined) \<noteq> None"
proof (cases "map_of kvs k")
  case None
  then show ?thesis by simp
next
  case (Some v)
  then have "(k, v) \<in> set kvs" by (rule map_of_SomeD)
  then have "js_toString v \<noteq> None" using assms by (force simp: plain_def list_all_iff)
  then show ?thesis using Some by simp
qed

lemma js_or_cases: "js_or a b = a \<or> js_or a b = b"
  by (simp add: js_or_def)

lemma parse_retcode_returns:
  assumes "plain kvs"
  shows "\<exists>r. parse_retcode (JObj kvs) operation = Some r"
proof -
  let ?raw = "case map_of kvs ''retcode'' of Some v \<Rightarrow> v | None \<Rightarrow> JUndefined"
  obtain t where t: "js_toString ?raw = Some t" using plain_field[OF assms] by blast
  define rc where "rc = (case js_parseInt True t of
      Some n \<Rightarrow> (if n \<noteq> 0 then JNum (real_of_int n) else ?raw) | None \<Rightarrow> ?raw)"
  have "rc = ?raw \<or> (\<exists>x. rc = JNum x)"
    by (auto simp: rc_def split: option.splits)
  then obtain u where u: "js_toString rc = Some u" using t by auto
  show ?thesis
    using t u by (simp add: parse_retcode_def parseInt_def rc_def[symmetric] Let_def)
qed

lemma parse_error_returns:
  assumes "plain kvs"
  shows "\<exists>r. parse_error (JObj kvs) operation = Some r"
proof -
  let ?e1 = "case map_of kvs ''error'' of Some v \<Rightarrow> v | None \<Rightarrow> JUndefined"
  let ?e2 = "case map_of kvs ''Error'' of Some v \<Rightarrow> v | None \<Rightarrow> JUndefined"
  have "js_toString (js_or ?e1 ?e2) \<noteq> None"
    using plain_field[OF assms, of "''error''"] plain_field[OF assms, of "''Error''"]
      js_or_cases[of ?e1 ?e2] by metis
  then show ?thesis by (auto simp: parse_error_def Let_def)
qed

lemma parse_order_or_default_returns:
  assumes "plain kvs"
  shows "\<exists>r. parse_order_or_default (JObj kvs) operation = Some r"
proof -
  let ?ord = "case map_of kvs ''order'' of Some v \<Rightarrow> v | None \<Rightarrow> JUndefined"
  obtain n where "to_number ?ord = Some n"
    using to_number_plain[OF plain_field[OF assms, of "''order''"]] by blast
  then show ?thesis by (simp add: parse_order_or_default_def js_gt0_def)
qed

lemma parse_message_returns:
  assumes "plain kvs"
  shows "\<exists>r. parse_message (JObj kvs) operation = Some r"
  using parse_order_or_default_returns[OF assms, of operation]
  by (auto simp: parse_message_def Let_def split: json.splits bool.splits)

lemma parse_success_returns: "\<exists>r. parse_success (JObj kvs) operation = Some r"
  by (simp add: parse_success_def)

lemma parse_object_returns:
  assumes "plain kvs"
  shows "\<exists>r. parse_object (JObj kvs) operation = Some r"
proof -
  let ?ticket = "case map_of kvs ''ticket'' of Some v \<Rightarrow> v | None \<Rightarrow> JUndefined"
  obtain n where n: "to_number ?ticket = Some n"
    using to_number_plain[OF plain_field[OF assms, of "''ticket''"]] by blast
  obtain t where t: "js_toString ?ticket = Some t"
    using plain_field[OF assms, of "''ticket''"] by blast
  show ?thesis
    using n t parse_retcode_returns[OF assms, of operation] parse_error_returns[OF assms, of operation]
      parse_message_returns[OF assms, of operation] parse_success_returns[of kvs operation]
    by (simp add: parse_object_def js_gt0_def)
qed

lemma parseOrderResponse_returns:
  assumes "\<forall>kvs. responseData = JObj kvs \<longrightarrow> plain kvs"
  shows "\<exists>r. parseOrderResponse responseData operation = Some r"
proof (cases responseData)
  case (JObj kvs)
  then show ?thesis using assms parse_object_returns[of kvs operation]
    by (simp add: parseOrderResponse_def)
next
  case (JArr xs)
  then show ?thesis using parse_array[of xs operation]
    by blast
qed (simp_all add: parseOrderResponse_def)

text \<open>
  The retcode rule comes before the error rule: a body with \<open>retcode = 10009\<close> whose \<open>ticket\<close>,
  if it has one, can be compared with zero is a Success, whatever else it carries.
\<close>

lemma digit_char_values:
  "digit_char 0 = CHR ''0''" "digit_char (Suc 0) = CHR ''1''" "digit_char 9 = CHR ''9''"
  by code_simp+

lemma show_nat_10009: "show_nat 10009 = ''10009''"
  by (simp add: show_nat.simps digit_char_values)

lemma number_toString_10009: "number_toString 10009 = ''10009''"
proof -
  have e: "dec_exponent 10009 = 5"
    by (simp add: dec_exponent_def show_nat_10009)
  have "\<lfloor>10009 * pow10 12 :: real\<rfloor> = 10009000000000000"
    by (simp add: pow10_def)
  then have d: "sig_digits 10009 = ''10009''"
    by (simp add: sig_digits_def e show_nat.simps digit_char_values)
  show ?thesis
    by (simp add: number_toString_def pos_toString_def e d)
qed

lemma js_parseInt_10009: "js_parseInt True ''10009'' = Some 10009"
  by code_simp

lemma retcode_rule_before_error_rule:
  assumes "map_of kvs ''retcode'' = Some (JNum 10009)"
    and "to_number (case map_of kvs ''ticket'' of Some v \<Rightarrow> v | None \<Rightarrow> JUndefined) \<noteq> None"
  shows "\<exists>r. parseOrderResponse (JObj kvs) operation = Some r \<and> is_success r"
proof -
  have k: "has_key kvs ''retcode''"
    using assms(1) by (force simp: has_key_def dest: map_of_SomeD)
  have r: "\<exists>r. parse_retcode (JObj kvs) operation = Some r \<and> is_success r"
    using assms(1)
    by (simp add: parse_retcode_def parseInt_def number_toString_10009 js_parseInt_10009 is_success_def)
  obtain n where n: "to_number (case map_of kvs ''ticket'' of Some v \<Rightarrow> v | None \<Rightarrow> JUndefined) = Some n"
    using assms(2) by blast
  obtain t where t: "js_toString (case map_of kvs ''ticket'' of Some v \<Rightarrow> v | None \<Rightarrow> JUndefined) = Some t"
    using assms(2) by (cases "case map_of kvs ''ticket'' of Some v \<Rightarrow> v | None \<Rightarrow> JUndefined") auto
  show ?thesis
    using k r n t by (simp add: parseOrderResponse_def parse_object_def js_gt0_def is_success_def)
qed

text \<open>
  Claim C3.  A decoded object body with \<open>retcode = 10009\<close> and an \<open>error\<close> field is to be
  classified Success, the retcode rule being applied before the error rule.  The parser
  tests \<open>responseData.ticket > 0\<close> before it reads \<open>retcode\<close>; for the body
  \<open>{"ticket": {"toString": 0}, "retcode": 10009, "error": "x"}\<close> that comparison has no
  primitive value to compare and throws a TypeError, so no classification is returned.
\<close>

theorem C3_retcode_body_throws:
  "parseOrderResponse
     (JObj [(''ticket'', JObj [(''toString'', JNum 0)]),
            (''retcode'', JNum 10009),
            (''error'', JStr ''x'')]) ''OrderClose'' = None"
  by code_simp

text \<open>
  Claim C8.  The parser is to return a tagged result for every decoded body.  For the
  body \<open>{"retcode": {"toString": 0}}\<close> the call \<open>parseInt(responseData.retcode)\<close> cannot convert
  its argument to a string and throws a TypeError.
\<close>

theorem C8_parse_throws:
  "parseOrderResponse (JObj [(''retcode'', JObj [(''toString'', JNum 0)])]) ''OrderSend'' = None"
  by code_simp

section \<open>The candidate list of a close\<close>




lemma near_refl [simp]: "near a a"
  by (simp add: near_def)

lemma near_sym: "near a b = near b a"
  by (simp add: near_def abs_minus_commute)














section \<open>The probe\<close>

lemma close_request_log [simp]: "close_request (s\<lparr>log := lg\<rparr>) = close_request s"
  by (intro ext) (simp add: close_request_def close_params_def token_param_def)


lemma try_formats_exhausted:
  "(\<forall>j<length cs. attempt_outcome t (i + j) (cs ! j)
              (b (log s @ map (close_request s t) (take j cs)) (close_request s t (cs ! j))) = Continue) \<Longrightarrow>
   try_formats b t i cs s = (Continue, s\<lparr>log := log s @ map (close_request s t) cs\<rparr>)"
proof (induction cs arbitrary: i s)
  case Nil
  then show ?case by simp
next
  case (Cons f fs)
  let ?s1 = "s\<lparr>log := log s @ [close_request s t f]\<rparr>"
  have step: "http_get b s ''/OrderClose'' (close_params s t f) = (b (log s) (close_request s t f), ?s1)"
    by (simp add: http_get_def close_request_def Let_def)
  from Cons.prems have c0: "attempt_outcome t i f (b (log s) (close_request s t f)) = Continue"
    by (metis add.right_neutral nth_Cons_0 take_0 list.map(1) append_Nil2 length_Cons zero_less_Suc)
  have a: "\<forall>j<length fs. attempt_outcome t (Suc i + j) (fs ! j)
              (b (log ?s1 @ map (close_request ?s1 t) (take j fs)) (close_request ?s1 t (fs ! j))) = Continue"
  proof (intro allI impI)
    fix j assume "j < length fs"
    then have "Suc j < length (f # fs)" by simp
    with Cons.prems have "attempt_outcome t (i + Suc j) ((f # fs) ! Suc j)
              (b (log s @ map (close_request s t) (take (Suc j) (f # fs)))
                 (close_request s t ((f # fs) ! Suc j))) = Continue"
      by blast
    then show "attempt_outcome t (Suc i + j) (fs ! j)
              (b (log ?s1 @ map (close_request ?s1 t) (take j fs)) (close_request ?s1 t (fs ! j))) = Continue"
      by simp
  qed
  show ?case using Cons.IH[OF a] c0 step by simp
qed








lemma session0_has_token: "has_token session0"
  by (simp add: has_token_def session0_def)

lemma session0_tokens: "token session0 = Some ''tok'' \<and> stored session0 = Some ''tok'' \<and> log session0 = []"
  by (simp add: session0_def)

lemma positions_of_position1: "decode_positions (JArr [position1]) = [position_of position1]"
  by (simp add: decode_positions_def is_array_def elements_def is_market_order_def field_def position1_def)

lemma position1_fields: "ticket (position_of position1) = 1 \<and> volume (position_of position1) = 1 / 10"
  by (simp add: position_of_def num_field_def field_def position1_def)

lemma getPositions_listing:
  assumes "has_token s" and "\<forall>lg r. req_path r = ''/OpenedOrders'' \<longrightarrow> b lg r = Resolved 200 (JArr [position1])"
  shows "getPositions b s =
     (Returned [position_of position1], s\<lparr>log := log s @ [Request ''GET'' ''/OpenedOrders'' [(''id'', token_param s)]]\<rparr>)"
  using assms by (simp add: getPositions_def http_get_def Let_def positions_of_position1)





text \<open>
  Claim C2.  When the adapter holds a token, the positions query of \<open>closePosition(t)\<close>
  returns a list, and no position of the list has ticket \<open>t\<close>, the call returns the Success
  outcome "Position not found - may already be closed" (retcode 10009) in the state the
  query left, and the log holds no \<open>OrderClose\<close> request that it did not hold before.
\<close>

theorem C2_idempotent_close:
  assumes "has_token s" and "getPositions b s = (Returned ps, s1)"
    and "find (\<lambda>pos. ticket pos = t) ps = None"
  shows "closePosition b s t v = (Returned (not_found_result t), s1)
       \<and> cr_retcode (not_found_result t) = 10009
       \<and> close_requests (log s1) = close_requests (log s)"
proof -
  have "closePosition b s t v = (Returned (not_found_result t), s1)"
    using assms by (simp add: closePosition_def)
  moreover have "close_requests (log s1) = close_requests (log s)"
    using assms(2)
    by (auto simp: getPositions_def http_get_def Let_def clearToken_def close_requests_def
          split: if_splits http_result.splits prod.splits)
  ultimately show ?thesis by (simp add: not_found_result_def)
qed

text \<open>Closing ticket 2 when only ticket 1 is open issues the positions query and nothing else.\<close>

theorem C2_idempotent_close_witness:
  "closePosition bridge_accepts session0 2 None =
     (Returned (not_found_result 2),
      session0\<lparr>log := log session0 @ [Request ''GET'' ''/OpenedOrders'' [(''id'', token_param session0)]]\<rparr>)
   \<and> close_requests (log (session0\<lparr>log := log session0 @ [Request ''GET'' ''/OpenedOrders'' [(''id'', token_param session0)]]\<rparr>)) = []"
proof -
  let ?p = "position_of position1"
  let ?s = "session0\<lparr>log := log session0 @ [Request ''GET'' ''/OpenedOrders'' [(''id'', token_param session0)]]\<rparr>"
  have g: "getPositions bridge_accepts session0 = (Returned [?p], ?s)"
    by (intro getPositions_listing session0_has_token) (simp add: bridge_accepts_def)
  have f: "find (\<lambda>pos. ticket pos = 2) [?p] = None"
    by (simp add: position1_fields)
  show ?thesis
    using C2_idempotent_close[OF session0_has_token g f, of None]
    by (simp add: close_requests_def session0_tokens)
qed

text \<open>
  Claim C4.  A call whose HTTP result carries status 401 is to leave no stored token, on
  every path, each volume-candidate attempt of \<open>closePosition\<close> included.  The \<open>catch\<close> block of
  an attempt tests the message of the error only, not \<open>error.response?.status\<close> as the outer
  \<open>catch\<close> and the other operations do: when the positions query succeeds and every
  \<open>OrderClose\<close> attempt is answered with status 401, \<open>closePosition\<close> returns a Failure
  (retcode 10004) and the token is still stored.
\<close>

theorem C4_close_attempt_401_keeps_token:
  "getStoredToken (snd (closePosition bridge_close_401 session0 1 None)) = Some ''tok''
   \<and> (case fst (closePosition bridge_close_401 session0 1 None) of
         Returned r \<Rightarrow> cr_retcode r = 10004
       | Threw e \<Rightarrow> False)"
proof -
  let ?p = "position_of position1"
  let ?cs = "candidates None (Some ?p)"
  let ?s = "session0\<lparr>log := log session0 @ [Request ''GET'' ''/OpenedOrders'' [(''id'', token_param session0)]]\<rparr>"
  have g: "getPositions bridge_close_401 session0 = (Returned [?p], ?s)"
    by (intro getPositions_listing session0_has_token) (simp add: bridge_close_401_def)
  have f: "find (\<lambda>pos. ticket pos = 1) [?p] = Some ?p"
    by (simp add: position1_fields)
  have c: "\<And>i fm. attempt_catch 1 i fm unauthorized = Continue"
    by (simp add: attempt_catch_def unauthorized_def closed_error_patterns_def auth_message_def)
  have "\<forall>j<length ?cs. attempt_outcome 1 (0 + j) (?cs ! j)
          (bridge_close_401 (log ?s @ map (close_request ?s 1) (take j ?cs)) (close_request ?s 1 (?cs ! j))) = Continue"
    by (simp add: bridge_close_401_def close_request_def attempt_outcome_def c)
  then have t: "try_formats bridge_close_401 1 0 ?cs ?s = (Continue, ?s\<lparr>log := log ?s @ map (close_request ?s 1) ?cs\<rparr>)"
    by (rule try_formats_exhausted)
  have p: "probe bridge_close_401 1 ?cs ?s =
      (Returned (failure (''Failed to close position '' @ number_toString 1 @ '' - tried ''
                            @ show_nat (length ?cs) @ '' different volume formats'')),
       ?s\<lparr>log := log ?s @ map (close_request ?s 1) ?cs\<rparr>)"
    by (simp only: probe_def t prod.case attempt.case)
  have h: "closePosition bridge_close_401 session0 1 None = probe bridge_close_401 1 ?cs ?s"
    using session0_has_token g f by (simp add: closePosition_def)
  show ?thesis
    unfolding h p by (simp add: getStoredToken_def failure_def session0_tokens)
qed

section \<open>Symbol resolution\<close>


text \<open>
  The rules at work: \<open>EURUSD.raw\<close> in a list that has both \<open>EURUSD\<close> and \<open>EURUSD.raw\<close> resolves
  to itself, \<open>EURUSD.M\<close> resolves to \<open>EURUSD\<close> by the stripped symbol, \<open>XAUUSD\<close> and \<open>XAGUSD\<close>
  resolve to \<open>GOLD\<close> and \<open>SILVER\<close> by the alias rules, \<open>EUR\<close> resolves to \<open>EURUSD\<close> as a part of
  it, \<open>BTCUSD\<close> resolves to nothing, and the adapter asks the bridge for its list once.
\<close>

lemma strip_raw: "strip_suffix ''EURUSD.raw'' = ''EURUSD''"
  by code_simp












section \<open>Optional order fields\<close>








section \<open>Disconnect\<close>

text \<open>
  Claim C7, as the code has it.  When no token is held, or the \<open>Disconnect\<close> request
  resolves, \<open>disconnect\<close> returns \<open>true\<close>, the token in memory and the persisted token are
  cleared, and the transport client is a new one made from the base URL and the API key.
  When a token is held and the request throws, \<open>disconnect\<close> returns \<open>false\<close> and the token,
  the persisted token and the client are what they were.
\<close>

theorem C7_disconnect:
  "(\<not> has_token s \<or> (\<exists>st d. b (log s) (Request ''GET'' ''/Disconnect'' [(''id'', token_param s)]) = Resolved st d)
      \<longrightarrow> fst (disconnect b s)
          \<and> token (snd (disconnect b s)) = None
          \<and> getStoredToken (snd (disconnect b s)) = None
          \<and> client_serial (apiClient (snd (disconnect b s))) = clients_created s
          \<and> clients_created (snd (disconnect b s)) = Suc (clients_created s)
          \<and> client_baseURL (apiClient (snd (disconnect b s))) = baseURL s
          \<and> client_headers (apiClient (snd (disconnect b s)))
              = [(''Content-Type'', ''application/json''), (''ApiKey'', apiKey s)])
   \<and> (has_token s \<and> (\<exists>e. b (log s) (Request ''GET'' ''/Disconnect'' [(''id'', token_param s)]) = Rejected e)
      \<longrightarrow> \<not> fst (disconnect b s)
          \<and> token (snd (disconnect b s)) = token s
          \<and> getStoredToken (snd (disconnect b s)) = getStoredToken s
          \<and> apiClient (snd (disconnect b s)) = apiClient s
          \<and> clients_created (snd (disconnect b s)) = clients_created s)"
  by (auto simp: disconnect_def http_get_def Let_def clearToken_def axios_create_def getStoredToken_def)

text \<open>Both cases on the connected adapter: a bridge that answers, and one that is down.\<close>

theorem C7_disconnect_witness:
  "fst (disconnect bridge_accepts session0)
   \<and> token (snd (disconnect bridge_accepts session0)) = None
   \<and> getStoredToken (snd (disconnect bridge_accepts session0)) = None
   \<and> client_serial (apiClient (snd (disconnect bridge_accepts session0))) = 1
   \<and> \<not> fst (disconnect bridge_down session0)
   \<and> apiClient (snd (disconnect bridge_down session0)) = apiClient session0"
proof -
  have a: "\<exists>st d. bridge_accepts (log session0) (Request ''GET'' ''/Disconnect'' [(''id'', token_param session0)]) = Resolved st d"
    by (simp add: bridge_accepts_def)
  have b: "\<exists>e. bridge_down (log session0) (Request ''GET'' ''/Disconnect'' [(''id'', token_param session0)]) = Rejected e"
    by (simp add: bridge_down_def)
  have c: "clients_created session0 = 1" by (simp add: session0_def)
  show ?thesis
    using C7_disconnect[of session0 bridge_accepts] C7_disconnect[of session0 bridge_down]
      a b session0_has_token c
    by simp
qed

text \<open>
  Claim C7 as stated is false: when the \<open>Disconnect\<close> request fails, the token stays in
  memory and in \<open>localStorage\<close>.
\<close>

theorem C7_failed_disconnect_keeps_token:
  "token (snd (disconnect bridge_down session0)) = Some ''tok''
   \<and> getStoredToken (snd (disconnect bridge_down session0)) = Some ''tok''"
  by (simp add: disconnect_def has_token_def http_get_def bridge_down_def Let_def getStoredToken_def
        session0_def)

section \<open>The module-level closePosition\<close>

lemma module_close_general:
  "(connected_module s \<longrightarrow>
      (\<forall>st d. module_close_answer mk b s t vol = Resolved st d \<and> profit_loggable d
         \<longrightarrow> co_success (fst (module_closePosition mk b s t vol))
             \<and> co_retcode (fst (module_closePosition mk b s t vol)) = 10009))
   \<and> (\<not> co_success (fst (module_closePosition mk b s t vol))
        \<and> (\<forall>st d. module_close_answer mk b s t vol = Resolved st d \<longrightarrow> profit_loggable d)
      \<longrightarrow> \<not> connected_module s \<or> (\<exists>e. module_close_answer mk b s t vol = Rejected e))"
proof -
  obtain found s1 where g: "module_getPositions b s = (found, s1)"
    by (cases "module_getPositions b s") auto
  have 1: "connected_module s \<longrightarrow>
      (\<forall>st d. module_close_answer mk b s t vol = Resolved st d \<and> profit_loggable d
         \<longrightarrow> co_success (fst (module_closePosition mk b s t vol))
             \<and> co_retcode (fst (module_closePosition mk b s t vol)) = 10009)"
    using g
    by (auto simp: module_closePosition_def module_close_answer_def Let_def module_close_resolved_def
          profit_loggable_def split: if_splits)
  have 2: "\<not> co_success (fst (module_closePosition mk b s t vol))
        \<and> (\<forall>st d. module_close_answer mk b s t vol = Resolved st d \<longrightarrow> profit_loggable d)
      \<longrightarrow> \<not> connected_module s \<or> (\<exists>e. module_close_answer mk b s t vol = Rejected e)"
  proof (intro impI, elim conjE)
    assume f: "\<not> co_success (fst (module_closePosition mk b s t vol))"
      and l: "\<forall>st d. module_close_answer mk b s t vol = Resolved st d \<longrightarrow> profit_loggable d"
    show "\<not> connected_module s \<or> (\<exists>e. module_close_answer mk b s t vol = Rejected e)"
    proof (cases "module_close_answer mk b s t vol")
      case (Rejected e)
      then show ?thesis by blast
    next
      case (Resolved st d)
      with l have "profit_loggable d" by blast
      with Resolved 1 f show ?thesis by blast
    qed
  qed
  show ?thesis using 1 2 by simp
qed

text \<open>
  Claim C10, as the code has it.  In both module-level \<open>closePosition\<close>, when a token is
  held and the \<open>OrderClose\<close> request resolves, whatever its status and body, the outcome is
  \<open>success = true\<close> with retcode 10009, provided the body has no \<open>profit\<close> or one that can be
  written to the log; and, leaving such bodies aside, an outcome with \<open>success = false\<close>
  is produced only when no token is held, in which case no request is made, or when the
  \<open>OrderClose\<close> request throws.
\<close>

theorem C10_module_close:
  "(connected_module s \<longrightarrow>
      (\<forall>st d. module_close_answer get_close_request b s t vol = Resolved st d \<and> profit_loggable d
         \<longrightarrow> co_success (fst (closePosition_get b s t vol))
             \<and> co_retcode (fst (closePosition_get b s t vol)) = 10009))
   \<and> (\<not> co_success (fst (closePosition_get b s t vol))
        \<and> (\<forall>st d. module_close_answer get_close_request b s t vol = Resolved st d \<longrightarrow> profit_loggable d)
      \<longrightarrow> \<not> connected_module s \<or> (\<exists>e. module_close_answer get_close_request b s t vol = Rejected e))
   \<and> (connected_module s \<longrightarrow>
      (\<forall>st d. module_close_answer post_close_request b s t vol = Resolved st d \<and> profit_loggable d
         \<longrightarrow> co_success (fst (closePosition_post b s t vol))
             \<and> co_retcode (fst (closePosition_post b s t vol)) = 10009))
   \<and> (\<not> co_success (fst (closePosition_post b s t vol))
        \<and> (\<forall>st d. module_close_answer post_close_request b s t vol = Resolved st d \<longrightarrow> profit_loggable d)
      \<longrightarrow> \<not> connected_module s \<or> (\<exists>e. module_close_answer post_close_request b s t vol = Rejected e))"
  unfolding closePosition_get_def closePosition_post_def
  using module_close_general[of s get_close_request b t vol]
        module_close_general[of s post_close_request b t vol]
  by (intro conjI) blast+

lemma module_session_connected: "connected_module module_session"
  by (simp add: connected_module_def module_session_def)

text \<open>
  A close on a bridge that accepts it succeeds through either service; on a bridge that is
  down the outcome is a failure and the request was rejected.
\<close>

theorem C10_module_close_witness:
  "co_success (fst (closePosition_get bridge_accepts module_session 1 None))
   \<and> co_retcode (fst (closePosition_get bridge_accepts module_session 1 None)) = 10009
   \<and> co_success (fst (closePosition_post bridge_accepts module_session 1 None))
   \<and> (\<exists>e. module_close_answer get_close_request bridge_down module_session 1 None = Rejected e)"
proof -
  have a: "module_close_answer get_close_request bridge_accepts module_session 1 None = Resolved 200 (JNum 5)"
    by (simp add: module_close_answer_def bridge_accepts_def get_close_request_def)
  have a': "module_close_answer post_close_request bridge_accepts module_session 1 None = Resolved 200 (JNum 5)"
    by (simp add: module_close_answer_def bridge_accepts_def post_close_request_def)
  have l: "profit_loggable (JNum 5)" by (simp add: profit_loggable_def)
  have f: "\<not> co_success (fst (closePosition_get bridge_down module_session 1 None))"
    by (simp add: closePosition_get_def module_closePosition_def module_session_connected
          module_getPositions_def module_session_def bridge_down_def Let_def module_close_catch_def
          close_failure_def)
  have r: "\<forall>st d. module_close_answer get_close_request bridge_down module_session 1 None = Resolved st d
             \<longrightarrow> profit_loggable d"
    by (simp add: module_close_answer_def bridge_down_def)
  note g = C10_module_close[where s = module_session and b = bridge_accepts and t = 1 and vol = None]
  note d = C10_module_close[where s = module_session and b = bridge_down and t = 1 and vol = None]
  have 1: "co_success (fst (closePosition_get bridge_accepts module_session 1 None))
      \<and> co_retcode (fst (closePosition_get bridge_accepts module_session 1 None)) = 10009"
    using g a l module_session_connected by blast
  have 2: "co_success (fst (closePosition_post bridge_accepts module_session 1 None))"
    using g a' l module_session_connected by blast
  have 3: "\<exists>e. module_close_answer get_close_request bridge_down module_session 1 None = Rejected e"
    using d f r module_session_connected by blast
  show ?thesis using 1 2 3 by simp
qed

text \<open>
  Claim C10 as stated is false: without a token the outcome is a failure although no
  request is made, so none throws.
\<close>

theorem C10_failure_without_request:
  "\<not> co_success (fst (closePosition_get bridge_accepts module_offline 1 None))
   \<and> calls (snd (closePosition_get bridge_accepts module_offline 1 None)) = []"
  by (simp add: closePosition_get_def module_closePosition_def connected_module_def module_offline_def
        module_close_catch_def close_failure_def)

text \<open>
  The bodies the theorem leaves aside: a \<open>profit\<close> that cannot be written to the log makes
  the success path throw, and the outcome is a failure although the request resolved.
\<close>

lemma module_close_unloggable_profit:
  "\<not> co_success (fst (closePosition_get bridge_odd_profit module_session 1 None))"
  by (simp add: closePosition_get_def module_closePosition_def module_session_connected
        module_getPositions_def module_session_def bridge_odd_profit_def Let_def get_close_request_def
        module_close_resolved_def field_def has_key_def module_close_catch_def close_failure_def)

section \<open>The two tokens\<close>

lemma token_step_refl [simp]: "token_step s s"
  by (simp add: token_step_def)

lemma token_step_trans: "token_step s s1 \<Longrightarrow> token_step s1 s2 \<Longrightarrow> token_step s s2"
  by (auto simp: token_step_def)

lemma token_step_clear [simp]: "token_step s (clearToken s1)"
  by (simp add: token_step_def clearToken_def)

lemma token_step_set [simp]: "token_step s (setToken t s1)"
  by (simp add: token_step_def setToken_def)

lemma token_step_log [simp]: "token_step s (s\<lparr>log := lg\<rparr>)"
  by (simp add: token_step_def)

lemma token_step_create: "token_step s s1 \<Longrightarrow> token_step s (axios_create s1)"
  by (auto simp: token_step_def axios_create_def)

lemma token_step_http: "token_step s (snd (http_get b s path ps))"
  by (simp add: http_get_def Let_def)

lemma http_get_cases:
  obtains res where "http_get b s path ps = (res, s\<lparr>log := log s @ [Request ''GET'' path ps]\<rparr>)"
  by (simp add: http_get_def Let_def)

lemma step_getPositions: "token_step s (snd (getPositions b s))"
  by (rule http_get_cases[of b s "''/OpenedOrders''" "[(''id'', token_param s)]"])
     (auto simp: getPositions_def split: http_result.splits)

lemma step_getSymbols: "token_step s (snd (getSymbols b s))"
  by (rule http_get_cases[of b s "''/SymbolList''" "[(''id'', token_param s)]"])
     (auto simp: getSymbols_def split: http_result.splits)

lemma step_subscribeSymbol: "token_step s (snd (subscribeSymbol b s x))"
  by (rule http_get_cases[of b s "''/Subscribe''" "[(''id'', token_param s), (''symbol'', JStr x)]"])
     (auto simp: subscribeSymbol_def split: http_result.splits)

lemma step_checkConnection: "token_step s (snd (checkConnection b s))"
  by (rule http_get_cases[of b s "''/CheckConnect''" "[(''id'', token_param s)]"])
     (auto simp: checkConnection_def split: http_result.splits)

lemma step_findMatchingSymbol: "token_step s (snd (findMatchingSymbol b s x))"
  using step_getSymbols[of s b]
  by (auto simp: findMatchingSymbol_def split: prod.splits outcome.splits)

lemma step_resolve: "token_step s (snd (resolve_and_subscribe b s x))"
proof -
  obtain m s1 where f: "findMatchingSymbol b s x = (m, s1)"
    by (cases "findMatchingSymbol b s x") auto
  have 1: "token_step s s1" using step_findMatchingSymbol[of s b x] f by simp
  show ?thesis
  proof (cases m)
    case None
    then show ?thesis using f 1 by (simp add: resolve_and_subscribe_def)
  next
    case (Some y)
    have "token_step s1 (snd (subscribeSymbol b s1 y))" by (rule step_subscribeSymbol)
    then have "token_step s (snd (subscribeSymbol b s1 y))" using 1 token_step_trans by blast
    then show ?thesis using f 1 Some by (simp add: resolve_and_subscribe_def)
  qed
qed

lemma step_sendOrder_catch: "token_step s (snd (sendOrder_catch e s))"
  by (simp add: sendOrder_catch_def)

lemma step_sendOrder: "token_step s (snd (sendOrder b s req))"
proof (cases "has_token s")
  case False
  then show ?thesis by (simp add: sendOrder_def)
next
  case True
  obtain a s1 where r: "resolve_and_subscribe b s (o_symbol req) = (a, s1)"
    by (cases "resolve_and_subscribe b s (o_symbol req)") auto
  have 1: "token_step s s1" using step_resolve[of s b "o_symbol req"] r by simp
  obtain res where h: "http_get b s1 ''/OrderSend'' (order_params s1 a req)
      = (res, s1\<lparr>log := log s1 @ [Request ''GET'' ''/OrderSend'' (order_params s1 a req)]\<rparr>)"
    by (rule http_get_cases)
  have "token_step s1 (snd (sendOrder b s req))"
    using True r h by (auto simp: sendOrder_def sendOrder_catch_def split: http_result.splits option.splits)
  then show ?thesis using 1 token_step_trans by blast
qed

lemma step_getQuote: "token_step s (snd (getQuote now b s x))"
proof (cases "has_token s")
  case False
  then show ?thesis by (simp add: getQuote_def)
next
  case True
  obtain a s1 where r: "resolve_and_subscribe b s x = (a, s1)"
    by (cases "resolve_and_subscribe b s x") auto
  have 1: "token_step s s1" using step_resolve[of s b x] r by simp
  obtain res where h: "http_get b s1 ''/GetQuote''
        [(''id'', token_param s1), (''symbol'', JStr a), (''msNotOlder'', JNum 0)]
      = (res, s1\<lparr>log := log s1 @ [Request ''GET'' ''/GetQuote''
                  [(''id'', token_param s1), (''symbol'', JStr a), (''msNotOlder'', JNum 0)]]\<rparr>)"
    by (rule http_get_cases)
  have "token_step s1 (snd (getQuote now b s x))"
    using True r h by (auto simp: getQuote_def split: http_result.splits json.splits)
  then show ?thesis using 1 token_step_trans by blast
qed

lemma step_getAccountInfo_catch: "token_step s (snd (getAccountInfo_catch e (s\<lparr>log := lg\<rparr>)))"
  by (simp add: getAccountInfo_catch_def token_step_def clearToken_def)

lemma step_getAccountInfo: "token_step s (snd (getAccountInfo b s))"
  by (auto simp: getAccountInfo_def http_get_def Let_def step_getAccountInfo_catch
        split: http_result.splits option.splits)

lemma step_disconnect: "token_step s (snd (disconnect b s))"
  by (auto simp: disconnect_def http_get_def Let_def token_step_create split: http_result.splits)

lemma step_connect: "token_step s (snd (connect b s c))"
  by (auto simp: connect_def http_get_def Let_def token_step_def setToken_def
        split: http_result.splits option.splits)

lemma step_setApiEndpoint: "token_step s (setApiEndpoint e s)"
  by (simp add: setApiEndpoint_def Let_def token_step_def)

lemma step_try_formats: "token_step s (snd (try_formats b t i cs s))"
proof (induction cs arbitrary: i s)
  case Nil
  then show ?case by simp
next
  case (Cons f fs)
  let ?s1 = "s\<lparr>log := log s @ [Request ''GET'' ''/OrderClose'' (close_params s t f)]\<rparr>"
  have 1: "token_step s ?s1" by simp
  have 2: "token_step ?s1 (snd (try_formats b t (Suc i) fs ?s1))" by (rule Cons.IH)
  have 3: "token_step s (snd (try_formats b t (Suc i) fs ?s1))"
    using 1 2 token_step_trans by blast
  show ?case
    using 3 by (auto simp: http_get_def Let_def split: attempt.splits)
qed

lemma step_probe: "token_step s (snd (probe b t cs s))"
proof -
  obtain a s2 where r: "try_formats b t 0 cs s = (a, s2)"
    by (cases "try_formats b t 0 cs s") auto
  have "token_step s s2" using step_try_formats[of s b t 0 cs] r by simp
  then show ?thesis
    using r by (cases a) (auto simp: probe_def token_step_def clearToken_def)
qed

lemma step_closePosition: "token_step s (snd (closePosition b s t v))"
proof (cases "has_token s")
  case False
  then show ?thesis by (simp add: closePosition_def)
next
  case True
  obtain r s1 where g: "getPositions b s = (r, s1)"
    by (cases "getPositions b s") auto
  have 1: "token_step s s1" using step_getPositions[of s b] g by simp
  have "token_step s1 (snd (closePosition b s t v))"
    using True g step_probe by (auto simp: closePosition_def split: outcome.splits option.splits)
  then show ?thesis using 1 token_step_trans by blast
qed

lemma agree_step: "tokens_agree s \<Longrightarrow> token_step s s' \<Longrightarrow> tokens_agree s'"
  by (auto simp: tokens_agree_def token_step_def)

lemma equal_step: "token s = stored s \<Longrightarrow> token_step s s' \<Longrightarrow> token s' = stored s'"
  by (auto simp: token_step_def)

lemma new_adapter_tokens:
  "stored (new_adapter url key persisted) = persisted
   \<and> token (new_adapter url key persisted) = (if persisted = Some [] then None else persisted)"
  by (auto simp: new_adapter_def axios_create_def getStoredToken_def Let_def split: option.splits)


text \<open>
  Claim C9, as the code has it.  The constructor leaves the token in memory equal to the
  persisted one, except that a persisted empty string leaves the token \<open>null\<close>.  Every other
  public method keeps the two equal when they are equal, and keeps them in agreement in
  the wider sense that allows that leftover of the constructor.
\<close>

theorem C9_tokens_agree:
  "tokens_agree (new_adapter url key persisted)
   \<and> (persisted \<noteq> Some [] \<longrightarrow>
        token (new_adapter url key persisted) = getStoredToken (new_adapter url key persisted))
   \<and> (tokens_agree s \<longrightarrow>
        tokens_agree (snd (connect b s c)) \<and> tokens_agree (snd (disconnect b s))
        \<and> tokens_agree (setToken t s) \<and> tokens_agree (clearToken s)
        \<and> tokens_agree (setApiEndpoint e s) \<and> tokens_agree (snd (checkConnection b s))
        \<and> tokens_agree (snd (getAccountInfo b s)) \<and> tokens_agree (snd (getSymbols b s))
        \<and> tokens_agree (snd (subscribeSymbol b s x)) \<and> tokens_agree (snd (findMatchingSymbol b s x))
        \<and> tokens_agree (snd (getPositions b s)) \<and> tokens_agree (snd (sendOrder b s req))
        \<and> tokens_agree (snd (getQuote now b s x)) \<and> tokens_agree (snd (closePosition b s n v)))
   \<and> (token s = getStoredToken s \<longrightarrow>
        token (snd (connect b s c)) = getStoredToken (snd (connect b s c))
        \<and> token (snd (disconnect b s)) = getStoredToken (snd (disconnect b s))
        \<and> token (setToken t s) = getStoredToken (setToken t s)
        \<and> token (clearToken s) = getStoredToken (clearToken s)
        \<and> token (setApiEndpoint e s) = getStoredToken (setApiEndpoint e s)
        \<and> token (snd (checkConnection b s)) = getStoredToken (snd (checkConnection b s))
        \<and> token (snd (getAccountInfo b s)) = getStoredToken (snd (getAccountInfo b s))
        \<and> token (snd (getSymbols b s)) = getStoredToken (snd (getSymbols b s))
        \<and> token (snd (subscribeSymbol b s x)) = getStoredToken (snd (subscribeSymbol b s x))
        \<and> token (snd (findMatchingSymbol b s x)) = getStoredToken (snd (findMatchingSymbol b s x))
        \<and> token (snd (getPositions b s)) = getStoredToken (snd (getPositions b s))
        \<and> token (snd (sendOrder b s req)) = getStoredToken (snd (sendOrder b s req))
        \<and> token (snd (getQuote now b s x)) = getStoredToken (snd (getQuote now b s x))
        \<and> token (snd (closePosition b s n v)) = getStoredToken (snd (closePosition b s n v)))"
proof -
  note steps = step_connect[of s b c] step_disconnect[of s b] token_step_set[of s t s]
    token_step_clear[of s s] step_setApiEndpoint[of s e] step_checkConnection[of s b]
    step_getAccountInfo[of s b] step_getSymbols[of s b] step_subscribeSymbol[of s b x]
    step_findMatchingSymbol[of s b x] step_getPositions[of s b] step_sendOrder[of s b req]
    step_getQuote[of s now b x] step_closePosition[of s b n v]
  have 1: "tokens_agree (new_adapter url key persisted)"
    by (simp add: tokens_agree_def new_adapter_tokens)
  have 2: "persisted \<noteq> Some [] \<longrightarrow>
        token (new_adapter url key persisted) = getStoredToken (new_adapter url key persisted)"
    by (simp add: getStoredToken_def new_adapter_tokens)
  have 3: "tokens_agree s \<longrightarrow>
        tokens_agree (snd (connect b s c)) \<and> tokens_agree (snd (disconnect b s))
        \<and> tokens_agree (setToken t s) \<and> tokens_agree (clearToken s)
        \<and> tokens_agree (setApiEndpoint e s) \<and> tokens_agree (snd (checkConnection b s))
        \<and> tokens_agree (snd (getAccountInfo b s)) \<and> tokens_agree (snd (getSymbols b s))
        \<and> tokens_agree (snd (subscribeSymbol b s x)) \<and> tokens_agree (snd (findMatchingSymbol b s x))
        \<and> tokens_agree (snd (getPositions b s)) \<and> tokens_agree (snd (sendOrder b s req))
        \<and> tokens_agree (snd (getQuote now b s x)) \<and> tokens_agree (snd (closePosition b s n v))"
    using steps agree_step[of s] by blast
  have 4: "token s = getStoredToken s \<longrightarrow>
        token (snd (connect b s c)) = getStoredToken (snd (connect b s c))
        \<and> token (snd (disconnect b s)) = getStoredToken (snd (disconnect b s))
        \<and> token (setToken t s) = getStoredToken (setToken t s)
        \<and> token (clearToken s) = getStoredToken (clearToken s)
        \<and> token (setApiEndpoint e s) = getStoredToken (setApiEndpoint e s)
        \<and> token (snd (checkConnection b s)) = getStoredToken (snd (checkConnection b s))
        \<and> token (snd (getAccountInfo b s)) = getStoredToken (snd (getAccountInfo b s))
        \<and> token (snd (getSymbols b s)) = getStoredToken (snd (getSymbols b s))
        \<and> token (snd (subscribeSymbol b s x)) = getStoredToken (snd (subscribeSymbol b s x))
        \<and> token (snd (findMatchingSymbol b s x)) = getStoredToken (snd (findMatchingSymbol b s x))
        \<and> token (snd (getPositions b s)) = getStoredToken (snd (getPositions b s))
        \<and> token (snd (sendOrder b s req)) = getStoredToken (snd (sendOrder b s req))
        \<and> token (snd (getQuote now b s x)) = getStoredToken (snd (getQuote now b s x))
        \<and> token (snd (closePosition b s n v)) = getStoredToken (snd (closePosition b s n v))"
    unfolding getStoredToken_def using steps equal_step[of s] by blast
  show ?thesis using 1 2 3 4 by (intro conjI)
qed

text \<open>
  On the connected adapter: a failed disconnect and a close whose attempts are all refused
  leave the two tokens equal, and a constructor that finds \<open>tok\<close> persisted holds it.
\<close>

theorem C9_tokens_agree_witness:
  "token (snd (disconnect bridge_down session0)) = getStoredToken (snd (disconnect bridge_down session0))
   \<and> token (snd (closePosition bridge_close_401 session0 1 None))
       = getStoredToken (snd (closePosition bridge_close_401 session0 1 None))
   \<and> tokens_agree (snd (connect bridge_accepts session0
                           \<lparr>accountNumber = ''1'', password = ''p'', serverName = ''s''\<rparr>))
   \<and> token (new_adapter None None (Some ''tok''))
       = getStoredToken (new_adapter None None (Some ''tok''))"
proof -
  have e: "token session0 = getStoredToken session0"
    by (simp add: session0_def getStoredToken_def)
  have a: "tokens_agree session0"
    by (simp add: tokens_agree_def session0_def)
  let ?c = "\<lparr>accountNumber = ''1'', password = ''p'', serverName = ''s''\<rparr>"
  note down = C9_tokens_agree[where s = session0 and b = bridge_down and persisted = "Some ''tok''"
            and url = None and key = None and c = ?c and t = "''t''" and e = "''u''" and x = "''EURUSD''"
            and req = order0 and now = "''now''" and n = 1 and v = None]
  note refused = C9_tokens_agree[where s = session0 and b = bridge_close_401 and persisted = "Some ''tok''"
            and url = None and key = None and c = ?c and t = "''t''" and e = "''u''" and x = "''EURUSD''"
            and req = order0 and now = "''now''" and n = 1 and v = None]
  note accepts = C9_tokens_agree[where s = session0 and b = bridge_accepts and persisted = "Some ''tok''"
            and url = None and key = None and c = ?c and t = "''t''" and e = "''u''" and x = "''EURUSD''"
            and req = order0 and now = "''now''" and n = 1 and v = None]
  have 1: "token (snd (disconnect bridge_down session0)) = getStoredToken (snd (disconnect bridge_down session0))"
    using down e by simp
  have 2: "token (snd (closePosition bridge_close_401 session0 1 None))
       = getStoredToken (snd (closePosition bridge_close_401 session0 1 None))"
    using refused e by simp
  have 3: "tokens_agree (snd (connect bridge_accepts session0 ?c))"
    using accepts a by simp
  have 4: "token (new_adapter None None (Some ''tok''))
       = getStoredToken (new_adapter None None (Some ''tok''))"
    using down by simp
  show ?thesis using 1 2 3 4 by simp
qed

text \<open>
  Claim C9 as stated is false at construction: with the empty string persisted under
  \<open>mt5_token\<close>, \<open>if (storedToken)\<close> leaves the token \<open>null\<close> while \<open>getStoredToken()\<close> is the empty
  string.
\<close>

theorem C9_empty_persisted_token:
  "token (new_adapter None None (Some [])) = None
   \<and> getStoredToken (new_adapter None None (Some [])) = Some []"
  by (simp add: new_adapter_tokens getStoredToken_def)

end
